theory Spec2Isabelle
  imports Complex_Main "HOL-Library.AList"
begin

section \<open>The free store\<close>

text \<open>
  The scaling model of \<^verbatim>\<open>scaling_model_impl.hpp\<close> owns its six scalers through raw
  pointers, creates them with \<^verbatim>\<open>new\<close> and releases them with \<^verbatim>\<open>delete\<close>. The free
  store is an association list from addresses to objects; \<open>NULL\<close> is address \<open>0\<close>.
  What C++ leaves undefined is a value of type \<open>fault\<close>. Allocation is taken to
  succeed, and the constructors of the scalers not to throw; the member functions of the
  scalers may throw.
\<close>

type_synonym addr = nat

definition NULL :: addr where
  "NULL = 0"

datatype fault = NullDereference | UseAfterFree | InvalidDelete

datatype 'e failure = Undefined fault | Thrown 'e

type_synonym 'o heap = "(addr \<times> 'o) list"

text \<open>The six scaler classes, and the six constructor calls that \<open>Fit\<close> makes.\<close>

datatype scaler_class =
  StandardScaler | MinMaxScaler | MeanNormalization | MaxAbsScaler | PcaWhitening | ZcaWhitening

datatype new_expr =
  New_StandardScaler
  | New_MinMaxScaler int int
  | New_MeanNormalization
  | New_MaxAbsScaler
  | New_PcaWhitening real
  | New_ZcaWhitening real

fun class_of :: "new_expr \<Rightarrow> scaler_class" where
  "class_of New_StandardScaler = StandardScaler"
| "class_of (New_MinMaxScaler lo hi) = MinMaxScaler"
| "class_of New_MeanNormalization = MeanNormalization"
| "class_of New_MaxAbsScaler = MaxAbsScaler"
| "class_of (New_PcaWhitening e) = PcaWhitening"
| "class_of (New_ZcaWhitening e) = ZcaWhitening"

text \<open>
  The scaler classes themselves, the matrix type and the allocator are outside
  \<^verbatim>\<open>scaling_model_impl.hpp\<close>; the model takes them as parameters. \<open>'o\<close> is the state of a
  scaler object, \<open>'mat\<close> the matrix type, \<open>'e\<close> the exceptions a scaler may throw.
  \<^item> \<open>alloc\<close> chooses the address of a new object, given the addresses in use;
  \<^item> \<open>construct\<close> is the state of an object right after its constructor;
  \<^item> \<open>fit\<close> is a class's \<^verbatim>\<open>Fit(input)\<close>: the object afterwards, and the exception if it
    threw one;
  \<^item> \<open>transform\<close> and \<open>inverse_transform\<close> are a class's \<^verbatim>\<open>Transform(input, output)\<close>
    and \<^verbatim>\<open>InverseTransform(input, output)\<close>: the new value of \<^verbatim>\<open>output\<close>, or the exception.
\<close>

record ('o, 'mat, 'e) env =
  alloc :: "addr list \<Rightarrow> addr"
  construct :: "new_expr \<Rightarrow> 'o"
  fit :: "scaler_class \<Rightarrow> 'o \<Rightarrow> 'mat \<Rightarrow> 'o \<times> 'e option"
  transform :: "scaler_class \<Rightarrow> 'o \<Rightarrow> 'mat \<Rightarrow> 'mat \<Rightarrow> 'e + 'mat"
  inverse_transform :: "scaler_class \<Rightarrow> 'o \<Rightarrow> 'mat \<Rightarrow> 'mat \<Rightarrow> 'e + 'mat"

text \<open>An allocator is sound when the address it returns is neither in use nor null.\<close>

definition fresh_allocator :: "(addr list \<Rightarrow> addr) \<Rightarrow> bool" where
  "fresh_allocator f \<longleftrightarrow> (\<forall>used. f used \<notin> set used \<and> f used \<noteq> NULL)"

definition new_obj :: "('o, 'mat, 'e) env \<Rightarrow> 'o heap \<Rightarrow> 'o \<Rightarrow> 'o heap \<times> addr" where
  "new_obj env h v = (let a = alloc env (map fst h) in ((a, v) # h, a))"

definition delete_obj :: "'o heap \<Rightarrow> addr \<Rightarrow> fault + 'o heap" where
  "delete_obj h p =
     (if p = NULL then Inr h
      else if map_of h p = None then Inl InvalidDelete
      else Inr (AList.delete p h))"

definition deref :: "'o heap \<Rightarrow> addr \<Rightarrow> fault + 'o" where
  "deref h p =
     (if p = NULL then Inl NullDereference
      else case map_of h p of None \<Rightarrow> Inl UseAfterFree | Some v \<Rightarrow> Inr v)"

definition and_then :: "'f + 'a \<Rightarrow> ('a \<Rightarrow> 'f + 'b) \<Rightarrow> 'f + 'b" where
  "and_then r f = (case r of Inl e \<Rightarrow> Inl e | Inr x \<Rightarrow> f x)"

section \<open>The scaling model\<close>

text \<open>
  Modelled from the spec: the enumeration \<^verbatim>\<open>ScalerTypes\<close> is declared in
  \<^verbatim>\<open>scaling_model.hpp\<close>, which is not among the sources. The spec lists the tags NONE,
  STANDARD, MINMAX, MEAN, MAXABS, PCA, ZCA, and NONE is the tag of a newly constructed
  model, which the constructor writes as \<^verbatim>\<open>scalerType(0)\<close>. The proofs use only that the
  seven values differ.
\<close>

definition NONE :: nat where "NONE = 0"
definition STANDARD_SCALER :: nat where "STANDARD_SCALER = 1"
definition MIN_MAX_SCALER :: nat where "MIN_MAX_SCALER = 2"
definition MEAN_NORMALIZATION :: nat where "MEAN_NORMALIZATION = 3"
definition MAX_ABS_SCALER :: nat where "MAX_ABS_SCALER = 4"
definition PCAWHITENING :: nat where "PCAWHITENING = 5"
definition ZCAWHITENING :: nat where "ZCAWHITENING = 6"

fun tag :: "scaler_class \<Rightarrow> nat" where
  "tag StandardScaler = STANDARD_SCALER"
| "tag MinMaxScaler = MIN_MAX_SCALER"
| "tag MeanNormalization = MEAN_NORMALIZATION"
| "tag MaxAbsScaler = MAX_ABS_SCALER"
| "tag PcaWhitening = PCAWHITENING"
| "tag ZcaWhitening = ZCAWHITENING"

text \<open>
  The data members of \<^verbatim>\<open>ScalingModel\<close>. \<^verbatim>\<open>epsilon\<close> is a \<^verbatim>\<open>double\<close> that the model only
  stores and passes on, so it is represented by the real number it denotes.
\<close>

record ScalingModel =
  scalerType :: nat
  minmaxscale :: addr
  maxabsscale :: addr
  meanscale :: addr
  standardscale :: addr
  pcascale :: addr
  zcascale :: addr
  minValue :: int
  maxValue :: int
  epsilon :: real

text \<open>The pointer member that holds the scaler of a class, read and written.\<close>

fun slot :: "scaler_class \<Rightarrow> ScalingModel \<Rightarrow> addr" where
  "slot StandardScaler m = standardscale m"
| "slot MinMaxScaler m = minmaxscale m"
| "slot MeanNormalization m = meanscale m"
| "slot MaxAbsScaler m = maxabsscale m"
| "slot PcaWhitening m = pcascale m"
| "slot ZcaWhitening m = zcascale m"

fun set_slot :: "scaler_class \<Rightarrow> addr \<Rightarrow> ScalingModel \<Rightarrow> ScalingModel" where
  "set_slot StandardScaler p m = m\<lparr>standardscale := p\<rparr>"
| "set_slot MinMaxScaler p m = m\<lparr>minmaxscale := p\<rparr>"
| "set_slot MeanNormalization p m = m\<lparr>meanscale := p\<rparr>"
| "set_slot MaxAbsScaler p m = m\<lparr>maxabsscale := p\<rparr>"
| "set_slot PcaWhitening p m = m\<lparr>pcascale := p\<rparr>"
| "set_slot ZcaWhitening p m = m\<lparr>zcascale := p\<rparr>"

definition all_classes :: "scaler_class list" where
  "all_classes =
     [StandardScaler, MinMaxScaler, MeanNormalization, MaxAbsScaler, PcaWhitening, ZcaWhitening]"

text \<open>The instances a model owns: the addresses in its non-null pointer members.\<close>

definition owned :: "ScalingModel \<Rightarrow> addr list" where
  "owned m = filter (\<lambda>p. p \<noteq> NULL) (map (\<lambda>k. slot k m) all_classes)"

subsection \<open>Constructors\<close>

text \<open>\<^verbatim>\<open>ScalingModel(minvalue, maxvalue, epsilonvalue)\<close>\<close>

definition ScalingModel_init :: "int \<Rightarrow> int \<Rightarrow> real \<Rightarrow> ScalingModel" where
  "ScalingModel_init minvalue maxvalue epsilonvalue =
     \<lparr>scalerType = 0,
      minmaxscale = NULL, maxabsscale = NULL, meanscale = NULL,
      standardscale = NULL, pcascale = NULL, zcascale = NULL,
      minValue = minvalue, maxValue = maxvalue, epsilon = epsilonvalue\<rparr>"

text \<open>
  Modelled from the spec: the accessor through which a caller sets the tag is declared
  in \<^verbatim>\<open>scaling_model.hpp\<close>, which is not among the sources (spec: "caller sets the tag and
  configuration"). It writes the member and nothing else.
\<close>

definition set_ScalerType :: "nat \<Rightarrow> ScalingModel \<Rightarrow> ScalingModel" where
  "set_ScalerType t m = m\<lparr>scalerType := t\<rparr>"

text \<open>
  Modelled from the spec: the copy constructors of the scaler classes, which are not
  among the sources. By the strategy contract of the spec each class supports deep
  copy construction: the copy is an object with the same state.
\<close>

definition copy_of :: "'o \<Rightarrow> 'o" where
  "copy_of v = v"

text \<open>\<^verbatim>\<open>other.p == NULL ? NULL : new T(*other.p)\<close>\<close>

definition clone :: "('o, 'mat, 'e) env \<Rightarrow> 'o heap \<Rightarrow> addr \<Rightarrow> fault + ('o heap \<times> addr)" where
  "clone env h p =
     (if p = NULL then Inr (h, NULL)
      else and_then (deref h p) (\<lambda>v. Inr (new_obj env h (copy_of v))))"

text \<open>
  The copy constructor. The scalar members are copied and each pointer member is
  initialised with a clone. The clones are taken in the order in which the initialiser
  list names them; none of them reads the result of another.
\<close>

definition ScalingModel_copy ::
  "('o, 'mat, 'e) env \<Rightarrow> 'o heap \<Rightarrow> ScalingModel \<Rightarrow> fault + ('o heap \<times> ScalingModel)" where
  "ScalingModel_copy env h other =
     and_then (clone env h (minmaxscale other)) (\<lambda>(h1, p1).
     and_then (clone env h1 (maxabsscale other)) (\<lambda>(h2, p2).
     and_then (clone env h2 (pcascale other)) (\<lambda>(h3, p3).
     and_then (clone env h3 (zcascale other)) (\<lambda>(h4, p4).
     and_then (clone env h4 (meanscale other)) (\<lambda>(h5, p5).
     and_then (clone env h5 (standardscale other)) (\<lambda>(h6, p6).
       Inr (h6,
         \<lparr>scalerType = scalerType other,
          minmaxscale = p1, maxabsscale = p2, meanscale = p5,
          standardscale = p6, pcascale = p3, zcascale = p4,
          minValue = minValue other, maxValue = maxValue other,
          epsilon = epsilon other\<rparr>)))))))"

text \<open>
  The move constructor: the new object takes every member of \<open>other\<close>, and \<open>other\<close> is
  overwritten member by member. The result is the new object and what is left of
  \<open>other\<close>; the free store is not touched.
\<close>

definition ScalingModel_move :: "ScalingModel \<Rightarrow> ScalingModel \<times> ScalingModel" where
  "ScalingModel_move other =
     (\<lparr>scalerType = scalerType other,
       minmaxscale = minmaxscale other, maxabsscale = maxabsscale other,
       meanscale = meanscale other, standardscale = standardscale other,
       pcascale = pcascale other, zcascale = zcascale other,
       minValue = minValue other, maxValue = maxValue other, epsilon = epsilon other\<rparr>,
      other\<lparr>scalerType := 0,
            minmaxscale := NULL, maxabsscale := NULL, meanscale := NULL,
            standardscale := NULL, pcascale := NULL, zcascale := NULL,
            minValue := 0, maxValue := 1, epsilon := 0.00005\<rparr>)"

subsection \<open>Copy assignment and destructor\<close>

text \<open>\<^verbatim>\<open>delete p; p = (other.p == NULL) ? NULL : new T(*other.p);\<close> for the member of class \<open>k\<close>.\<close>

definition assign_member ::
  "('o, 'mat, 'e) env \<Rightarrow> scaler_class \<Rightarrow> ScalingModel \<Rightarrow> 'o heap \<times> ScalingModel
     \<Rightarrow> fault + ('o heap \<times> ScalingModel)" where
  "assign_member env k other s =
     (case s of (h, this) \<Rightarrow>
        and_then (delete_obj h (slot k this)) (\<lambda>h1.
        and_then (clone env h1 (slot k other)) (\<lambda>(h2, p).
          Inr (h2, set_slot k p this))))"

text \<open>
  \<^verbatim>\<open>operator=\<close>. \<open>this\<close> and \<open>other\<close> are references: the address of the object and
  the object found there. The guard compares the two addresses. The result is the free
  store and the object at \<open>this\<close>, which is what the returned reference \<^verbatim>\<open>*this\<close> denotes.
\<close>

definition operator_assign ::
  "('o, 'mat, 'e) env \<Rightarrow> 'o heap \<Rightarrow> addr \<times> ScalingModel \<Rightarrow> addr \<times> ScalingModel
     \<Rightarrow> fault + ('o heap \<times> ScalingModel)" where
  "operator_assign env h this_ref other_ref =
     (case (this_ref, other_ref) of ((this_at, this), (other_at, other)) \<Rightarrow>
        if this_at = other_at then Inr (h, this)
        else
          and_then (assign_member env MinMaxScaler other
                      (h, this\<lparr>scalerType := scalerType other\<rparr>)) (\<lambda>s1.
          and_then (assign_member env MaxAbsScaler other s1) (\<lambda>s2.
          and_then (assign_member env StandardScaler other s2) (\<lambda>s3.
          and_then (assign_member env MeanNormalization other s3) (\<lambda>s4.
          and_then (assign_member env PcaWhitening other s4) (\<lambda>s5.
          and_then (assign_member env ZcaWhitening other s5) (\<lambda>(h6, t6).
            Inr (h6, t6\<lparr>minValue := minValue other, maxValue := maxValue other,
                        epsilon := epsilon other\<rparr>))))))))"

text \<open>The destructor deletes the six members.\<close>

definition ScalingModel_destroy :: "'o heap \<Rightarrow> ScalingModel \<Rightarrow> fault + 'o heap" where
  "ScalingModel_destroy h this =
     and_then (delete_obj h (minmaxscale this)) (\<lambda>h1.
     and_then (delete_obj h1 (maxabsscale this)) (\<lambda>h2.
     and_then (delete_obj h2 (standardscale this)) (\<lambda>h3.
     and_then (delete_obj h3 (meanscale this)) (\<lambda>h4.
     and_then (delete_obj h4 (pcascale this)) (\<lambda>h5.
       delete_obj h5 (zcascale this))))))"

subsection \<open>Fit, Transform, InverseTransform\<close>

text \<open>
  Each branch of \<^verbatim>\<open>Fit\<close> is the same three statements on the member of one class:
  \<^verbatim>\<open>delete p; p = new T(args); p->Fit(input);\<close>. The result is the free store and the
  model after the call, and the exception that left \<^verbatim>\<open>Fit\<close>, if one did.
\<close>

definition refit ::
  "('o, 'mat, 'e) env \<Rightarrow> 'o heap \<Rightarrow> ScalingModel \<Rightarrow> new_expr \<Rightarrow> 'mat
     \<Rightarrow> fault + (('o heap \<times> ScalingModel) \<times> 'e option)" where
  "refit env h m c input =
     and_then (delete_obj h (slot (class_of c) m)) (\<lambda>h1.
       case new_obj env h1 (construct env c) of (h2, p) \<Rightarrow>
         and_then (deref h2 p) (\<lambda>v.
           case fit env (class_of c) v input of (v', thrown) \<Rightarrow>
             Inr ((AList.update p v' h2, set_slot (class_of c) p m), thrown)))"

definition Fit ::
  "('o, 'mat, 'e) env \<Rightarrow> 'o heap \<Rightarrow> ScalingModel \<Rightarrow> 'mat
     \<Rightarrow> fault + (('o heap \<times> ScalingModel) \<times> 'e option)" where
  "Fit env h m input =
     (if scalerType m = STANDARD_SCALER then
        refit env h m New_StandardScaler input
      else if scalerType m = MIN_MAX_SCALER then
        refit env h m (New_MinMaxScaler (minValue m) (maxValue m)) input
      else if scalerType m = MEAN_NORMALIZATION then
        refit env h m New_MeanNormalization input
      else if scalerType m = MAX_ABS_SCALER then
        refit env h m New_MaxAbsScaler input
      else if scalerType m = PCAWHITENING then
        refit env h m (New_PcaWhitening (epsilon m)) input
      else if scalerType m = ZCAWHITENING then
        refit env h m (New_ZcaWhitening (epsilon m)) input
      else Inr ((h, m), None))"

text \<open>
  \<^verbatim>\<open>p->Transform(input, output)\<close>: the call through a member pointer. The result is the
  new value of \<^verbatim>\<open>output\<close>.
\<close>

definition through ::
  "'o heap \<Rightarrow> addr \<Rightarrow> ('o \<Rightarrow> 'e + 'mat) \<Rightarrow> 'e failure + 'mat" where
  "through h p f =
     (case deref h p of
        Inl ft \<Rightarrow> Inl (Undefined ft)
      | Inr v \<Rightarrow> (case f v of Inl e \<Rightarrow> Inl (Thrown e) | Inr out \<Rightarrow> Inr out))"

definition Transform ::
  "('o, 'mat, 'e) env \<Rightarrow> 'o heap \<Rightarrow> ScalingModel \<Rightarrow> 'mat \<Rightarrow> 'mat \<Rightarrow> 'e failure + 'mat" where
  "Transform env h m input output =
     (if scalerType m = STANDARD_SCALER then
        through h (standardscale m) (\<lambda>v. transform env StandardScaler v input output)
      else if scalerType m = MIN_MAX_SCALER then
        through h (minmaxscale m) (\<lambda>v. transform env MinMaxScaler v input output)
      else if scalerType m = MEAN_NORMALIZATION then
        through h (meanscale m) (\<lambda>v. transform env MeanNormalization v input output)
      else if scalerType m = MAX_ABS_SCALER then
        through h (maxabsscale m) (\<lambda>v. transform env MaxAbsScaler v input output)
      else if scalerType m = PCAWHITENING then
        through h (pcascale m) (\<lambda>v. transform env PcaWhitening v input output)
      else if scalerType m = ZCAWHITENING then
        through h (zcascale m) (\<lambda>v. transform env ZcaWhitening v input output)
      else Inr output)"

definition InverseTransform ::
  "('o, 'mat, 'e) env \<Rightarrow> 'o heap \<Rightarrow> ScalingModel \<Rightarrow> 'mat \<Rightarrow> 'mat \<Rightarrow> 'e failure + 'mat" where
  "InverseTransform env h m input output =
     (if scalerType m = STANDARD_SCALER then
        through h (standardscale m) (\<lambda>v. inverse_transform env StandardScaler v input output)
      else if scalerType m = MIN_MAX_SCALER then
        through h (minmaxscale m) (\<lambda>v. inverse_transform env MinMaxScaler v input output)
      else if scalerType m = MEAN_NORMALIZATION then
        through h (meanscale m) (\<lambda>v. inverse_transform env MeanNormalization v input output)
      else if scalerType m = MAX_ABS_SCALER then
        through h (maxabsscale m) (\<lambda>v. inverse_transform env MaxAbsScaler v input output)
      else if scalerType m = PCAWHITENING then
        through h (pcascale m) (\<lambda>v. inverse_transform env PcaWhitening v input output)
      else if scalerType m = ZCAWHITENING then
        through h (zcascale m) (\<lambda>v. inverse_transform env ZcaWhitening v input output)
      else Inr output)"

subsection \<open>The configuration of each class\<close>

text \<open>
  The constructor call that the specification gives for each class, to be compared with
  the branches of \<open>Fit\<close>: the min-max scaler takes the two bounds, the two whitening
  scalers take epsilon, the others take nothing.
\<close>

fun configured :: "ScalingModel \<Rightarrow> scaler_class \<Rightarrow> new_expr" where
  "configured m StandardScaler = New_StandardScaler"
| "configured m MinMaxScaler = New_MinMaxScaler (minValue m) (maxValue m)"
| "configured m MeanNormalization = New_MeanNormalization"
| "configured m MaxAbsScaler = New_MaxAbsScaler"
| "configured m PcaWhitening = New_PcaWhitening (epsilon m)"
| "configured m ZcaWhitening = New_ZcaWhitening (epsilon m)"


section \<open>The Elliot activation function\<close>

text \<open>
  \<^verbatim>\<open>elliot_function.hpp\<close>. A \<^verbatim>\<open>double\<close> is represented by the real number it denotes.
  An Armadillo matrix is the list of its rows; a column vector of \<open>n\<close> elements has \<open>n\<close>
  rows of one element. Between two Armadillo matrices \<^verbatim>\<open>*\<close> is the matrix product,
  which throws \<^verbatim>\<open>std::logic_error\<close> when the dimensions do not agree; \<^verbatim>\<open>arma::abs\<close> and
  the sum with a scalar work element by element.
\<close>

type_synonym mat = "real list list"

datatype arma_error = IncompatibleDimensions

definition n_rows :: "mat \<Rightarrow> nat" where
  "n_rows A = length A"

definition n_cols :: "mat \<Rightarrow> nat" where
  "n_cols A = (case A of [] \<Rightarrow> 0 | r # _ \<Rightarrow> length r)"

definition arma_abs :: "mat \<Rightarrow> mat" where
  "arma_abs A = map (map abs) A"

definition scalar_plus :: "real \<Rightarrow> mat \<Rightarrow> mat" where
  "scalar_plus c A = map (map (\<lambda>v. c + v)) A"

definition column :: "mat \<Rightarrow> nat \<Rightarrow> real list" where
  "column B j = map (\<lambda>r. r ! j) B"

definition dot :: "real list \<Rightarrow> real list \<Rightarrow> real" where
  "dot u v = sum_list (map (\<lambda>(a, b). a * b) (zip u v))"

definition mat_times :: "mat \<Rightarrow> mat \<Rightarrow> arma_error + mat" where
  "mat_times A B =
     (if n_cols A \<noteq> n_rows B then Inl IncompatibleDimensions
      else Inr (map (\<lambda>r. map (\<lambda>j. dot r (column B j)) [0..<n_cols B]) A))"

text \<open>\<^verbatim>\<open>static double Fn(const double x)\<close>\<close>

definition ElliotFunction_Fn :: "real \<Rightarrow> real" where
  "ElliotFunction_Fn x = x / (1 + \<bar>x\<bar>)"

text \<open>\<^verbatim>\<open>static void Fn(const InputVecType& x, OutputVecType& y)\<close>: the value assigned to \<open>y\<close>.\<close>

definition ElliotFunction_Fn_vec :: "mat \<Rightarrow> arma_error + mat" where
  "ElliotFunction_Fn_vec x = mat_times x (scalar_plus 1 (arma_abs x))"

section \<open>A small instance of the parameters\<close>

text \<open>
  An allocator that returns the address after the largest one in use, and scalers whose
  state is the constructor call that made them and the data they were last fitted on.
  Fitting on no data throws; transforming shifts by the first fitted value.
\<close>

definition bump :: "addr list \<Rightarrow> addr" where
  "bump used = Suc (fold max used 0)"

definition toy :: "(new_expr \<times> int list, int list, string) env" where
  "toy =
     \<lparr>alloc = bump,
      construct = (\<lambda>c. (c, [])),
      fit = (\<lambda>k v input.
        if input = [] then ((fst v, []), Some ''empty input'') else ((fst v, input), None)),
      transform = (\<lambda>k v input output.
        if snd v = [] then Inl ''not fitted'' else Inr (map (\<lambda>x. x - hd (snd v)) input)),
      inverse_transform = (\<lambda>k v input output.
        if snd v = [] then Inl ''not fitted'' else Inr (map (\<lambda>x. x + hd (snd v)) input))\<rparr>"



section \<open>Histories of one model\<close>

text \<open>
  What a caller does to a model between its construction and its destruction: it sets
  the tag, and it calls \<open>Fit\<close>. A caller that catches an exception thrown by \<open>Fit\<close> goes
  on with the model as the call left it.
\<close>

datatype 'mat call = SetScalerType nat | CallFit 'mat

fun perform ::
  "('o, 'mat, 'e) env \<Rightarrow> 'mat call \<Rightarrow> 'o heap \<times> ScalingModel
     \<Rightarrow> fault + ('o heap \<times> ScalingModel)" where
  "perform env (SetScalerType t) (h, m) = Inr (h, set_ScalerType t m)"
| "perform env (CallFit x) (h, m) = and_then (Fit env h m x) (\<lambda>r. Inr (fst r))"

fun perform_all ::
  "('o, 'mat, 'e) env \<Rightarrow> 'mat call list \<Rightarrow> 'o heap \<times> ScalingModel
     \<Rightarrow> fault + ('o heap \<times> ScalingModel)" where
  "perform_all env [] s = Inr s"
| "perform_all env (c # cs) s = and_then (perform env c s) (perform_all env cs)"

definition history ::
  "('o, 'mat, 'e) env \<Rightarrow> int \<Rightarrow> int \<Rightarrow> real \<Rightarrow> 'mat call list
     \<Rightarrow> fault + ('o heap \<times> ScalingModel)" where
  "history env minvalue maxvalue epsilonvalue cs =
     perform_all env cs ([], ScalingModel_init minvalue maxvalue epsilonvalue)"

section \<open>Ownership\<close>

text \<open>
  A model is well formed in a free store when its non-null pointer members are pairwise
  different and each points to a live object. Two models are separate when no address is
  in a pointer member of both.
\<close>

definition well_formed :: "'o heap \<Rightarrow> ScalingModel \<Rightarrow> bool" where
  "well_formed h m \<longleftrightarrow> distinct (owned m) \<and> list_all (\<lambda>p. map_of h p \<noteq> None) (owned m)"

definition separate :: "ScalingModel \<Rightarrow> ScalingModel \<Rightarrow> bool" where
  "separate a b \<longleftrightarrow> list_all (\<lambda>p. p \<notin> set (owned b)) (owned a)"

text \<open>
  \<open>deep_copy h a h' b\<close>: in the store \<open>h'\<close> the model \<open>b\<close> is a deep copy of the model
  \<open>a\<close> as it was in \<open>h\<close>. The scalar members are equal; for each class, \<open>b\<close> owns
  nothing where \<open>a\<close> owns nothing, and otherwise owns an object in the state of the one
  \<open>a\<close> owns, which is still there; \<open>b\<close> is well formed and shares no instance with \<open>a\<close>.
\<close>

definition deep_copy :: "'o heap \<Rightarrow> ScalingModel \<Rightarrow> 'o heap \<Rightarrow> ScalingModel \<Rightarrow> bool" where
  "deep_copy h a h' b \<longleftrightarrow>
     scalerType b = scalerType a \<and> minValue b = minValue a \<and> maxValue b = maxValue a
     \<and> epsilon b = epsilon a
     \<and> list_all (\<lambda>k.
           if slot k a = NULL then slot k b = NULL
           else slot k b \<noteq> NULL
                \<and> map_of h' (slot k b) = map_of h (slot k a)
                \<and> map_of h' (slot k a) = map_of h (slot k a)) all_classes
     \<and> well_formed h' b \<and> separate b a"

text \<open>
  A model is the only owner in a free store when, besides being free of sharing, the
  objects its members point to are exactly the live objects.
\<close>

definition exact :: "'o heap \<Rightarrow> ScalingModel \<Rightarrow> bool" where
  "exact h m \<longleftrightarrow> distinct (owned m) \<and> set (owned m) = fst ` set h"

text \<open>
  The state of a copy in progress. \<open>copying h0 t0 other D h t\<close>: starting from the store
  \<open>h0\<close> and the target \<open>t0\<close>, the members of the classes in \<open>D\<close> have been assigned
  from \<open>other\<close>, giving the store \<open>h\<close> and the target \<open>t\<close>. Both models are well formed
  and separate, the objects of \<open>other\<close> are as they were, the members outside \<open>D\<close> are
  untouched, the members in \<open>D\<close> point to copies at addresses that were free or were
  released by the target, and the objects that the target did not own are as they were.
\<close>

definition copying ::
  "'o heap \<Rightarrow> ScalingModel \<Rightarrow> ScalingModel \<Rightarrow> scaler_class set \<Rightarrow> 'o heap \<Rightarrow> ScalingModel
     \<Rightarrow> bool" where
  "copying h0 t0 other D h t \<longleftrightarrow>
     well_formed h t \<and> well_formed h other \<and> separate t other
     \<and> (\<forall>k. slot k other \<noteq> NULL \<longrightarrow> map_of h (slot k other) = map_of h0 (slot k other))
     \<and> (\<forall>k. k \<notin> D \<longrightarrow> slot k t = slot k t0)
     \<and> (\<forall>k\<in>D. (slot k t = NULL \<longleftrightarrow> slot k other = NULL)
            \<and> (slot k t \<noteq> NULL \<longrightarrow> map_of h (slot k t) = map_of h0 (slot k other)))
     \<and> (\<forall>k\<in>D. slot k t \<noteq> NULL \<longrightarrow>
            map_of h0 (slot k t) = None \<or> slot k t \<in> set (owned t0))
     \<and> (\<forall>q. map_of h0 q \<noteq> None \<longrightarrow> q \<notin> set (owned t0) \<longrightarrow> map_of h q = map_of h0 q)
     \<and> scalerType t = scalerType t0 \<and> minValue t = minValue t0
     \<and> maxValue t = maxValue t0 \<and> epsilon t = epsilon t0"


section \<open>Classes, members and owned instances\<close>

lemma class_all: "(\<forall>k. P k) \<longleftrightarrow> P StandardScaler \<and> P MinMaxScaler \<and> P MeanNormalization \<and> P MaxAbsScaler \<and> P PcaWhitening \<and> P ZcaWhitening"
  by (metis scaler_class.exhaust)

lemma slot_set_slot: "slot k (set_slot k' p m) = (if k = k' then p else slot k m)"
  by (cases k; cases k'; simp)

lemma set_slot_scalars:
  "scalerType (set_slot k p m) = scalerType m"
  "minValue (set_slot k p m) = minValue m"
  "maxValue (set_slot k p m) = maxValue m"
  "epsilon (set_slot k p m) = epsilon m"
  by (cases k; simp)+

lemma all_classes_UNIV: "set all_classes = UNIV"
  by (auto simp: all_classes_def intro: scaler_class.exhaust)

lemma distinct_all_classes: "distinct all_classes"
  by (simp add: all_classes_def)

lemma in_owned: "p \<in> set (owned m) \<longleftrightarrow> p \<noteq> NULL \<and> (\<exists>k. slot k m = p)"
  by (auto simp: owned_def all_classes_UNIV)

lemma distinct_owned:
  "distinct (owned m) \<longleftrightarrow> (\<forall>k k'. k \<noteq> k' \<longrightarrow> slot k m \<noteq> NULL \<longrightarrow> slot k m \<noteq> slot k' m)"
proof -
  have "distinct (owned m) \<longleftrightarrow> inj_on (\<lambda>k. slot k m) {k. slot k m \<noteq> NULL}"
    unfolding owned_def filter_map
    by (simp add: distinct_map distinct_all_classes all_classes_UNIV comp_def)
  also have "\<dots> \<longleftrightarrow> (\<forall>k k'. k \<noteq> k' \<longrightarrow> slot k m \<noteq> NULL \<longrightarrow> slot k m \<noteq> slot k' m)"
    unfolding inj_on_def by (auto; metis)
  finally show ?thesis .
qed

lemma tag_inj: "tag k = tag k' \<longleftrightarrow> k = k'"
  by (cases k; cases k'; simp add: STANDARD_SCALER_def MIN_MAX_SCALER_def
      MEAN_NORMALIZATION_def MAX_ABS_SCALER_def PCAWHITENING_def ZCAWHITENING_def)

lemma bump_fresh: "fresh_allocator bump"
proof -
  have ge: "\<And>xs (a::nat). a \<le> fold max xs a"
    subgoal for xs a by (induction xs arbitrary: a) (auto intro: order_trans [OF max.cobounded2])
    done
  have "\<And>xs (a::nat) x. x \<in> set xs \<Longrightarrow> x \<le> fold max xs a"
    subgoal for xs a x
      by (induction xs arbitrary: a) (auto intro: order_trans [OF max.cobounded1 ge])
    done
  then show ?thesis
    unfolding fresh_allocator_def bump_def NULL_def
    by (metis Suc_n_not_le_n nat.distinct(1))
qed


section \<open>Allocation, release and the branches of Fit\<close>

lemma new_obj_effect:
  assumes "fresh_allocator (alloc env)" and "new_obj env h v = (h', a)"
  shows "a \<noteq> NULL" and "map_of h a = None" and "map_of h' = (map_of h)(a \<mapsto> v)"
proof -
  from assms(2) have a: "a = alloc env (map fst h)" and h': "h' = (a, v) # h"
    by (auto simp: new_obj_def Let_def)
  from assms(1) have "a \<notin> set (map fst h)" and "a \<noteq> NULL"
    unfolding a fresh_allocator_def by blast+
  then show "a \<noteq> NULL" and "map_of h a = None"
    by (simp_all add: map_of_eq_None_iff)
  show "map_of h' = (map_of h)(a \<mapsto> v)"
    by (simp add: h')
qed

lemma delete_obj_effect:
  assumes "p = NULL \<or> map_of h p \<noteq> None"
  shows "\<exists>h'. delete_obj h p = Inr h'
           \<and> (\<forall>q. map_of h' q = (if q = p \<and> p \<noteq> NULL then None else map_of h q))"
  using assms by (auto simp: delete_obj_def AList.delete_conv)

lemma deref_live: "p \<noteq> NULL \<Longrightarrow> map_of h p = Some v \<Longrightarrow> deref h p = Inr v"
  by (simp add: deref_def)

lemma deref_null: "deref h NULL = Inl NullDereference"
  by (simp add: deref_def)

lemma and_then_simps [simp]:
  "and_then (Inl e) f = Inl e" "and_then (Inr x) f = f x"
  by (simp_all add: and_then_def)

text \<open>The effect of the three statements of a branch of \<open>Fit\<close>.\<close>

lemma refit_effect:
  assumes fresh: "fresh_allocator (alloc env)"
    and old: "slot (class_of c) m = NULL \<or> map_of h (slot (class_of c) m) \<noteq> None"
  shows "\<exists>h' p. refit env h m c input
            = Inr ((h', set_slot (class_of c) p m), snd (fit env (class_of c) (construct env c) input))
          \<and> p \<noteq> NULL
          \<and> (map_of h p = None \<or> p = slot (class_of c) m)
          \<and> (\<forall>q. map_of h' q =
                (if q = p then Some (fst (fit env (class_of c) (construct env c) input))
                 else if q = slot (class_of c) m \<and> q \<noteq> NULL then None
                 else map_of h q))"
proof -
  let ?k = "class_of c"
  from delete_obj_effect [OF old] obtain h1 where
    d: "delete_obj h (slot ?k m) = Inr h1"
    and h1: "\<And>q. map_of h1 q = (if q = slot ?k m \<and> slot ?k m \<noteq> NULL then None else map_of h q)"
    by blast
  obtain h2 p where n: "new_obj env h1 (construct env c) = (h2, p)"
    by (cases "new_obj env h1 (construct env c)")
  note e = new_obj_effect [OF fresh n]
  obtain v' thrown where f: "fit env ?k (construct env c) input = (v', thrown)"
    by (cases "fit env ?k (construct env c) input")
  have dr: "deref h2 p = Inr (construct env c)"
    by (rule deref_live) (simp_all add: e)
  have r: "refit env h m c input = Inr ((AList.update p v' h2, set_slot ?k p m), thrown)"
    by (simp add: refit_def d n dr f)
  have m: "\<And>q. map_of (AList.update p v' h2) q =
      (if q = p then Some v' else if q = slot ?k m \<and> q \<noteq> NULL then None else map_of h q)"
    by (auto simp: update_conv e(3) h1)
  have fr: "map_of h p = None \<or> p = slot ?k m"
    using e(2) h1 [of p] by (auto split: if_splits)
  show ?thesis
    by (intro exI [of _ "AList.update p v' h2"] exI [of _ p]) (simp add: r f e(1) fr m)
qed

lemma configured_class: "class_of (configured m k) = k"
  by (cases k) simp_all

lemma Fit_dispatch: "scalerType m = tag k \<Longrightarrow> Fit env h m input = refit env h m (configured m k) input"
  by (cases k) (simp_all add: Fit_def STANDARD_SCALER_def MIN_MAX_SCALER_def
      MEAN_NORMALIZATION_def MAX_ABS_SCALER_def PCAWHITENING_def ZCAWHITENING_def)

lemma Fit_skip: "(\<forall>k. scalerType m \<noteq> tag k) \<Longrightarrow> Fit env h m input = Inr ((h, m), None)"
  by (simp add: class_all Fit_def)


lemma NONE_branches:
  "NONE \<noteq> STANDARD_SCALER" "NONE \<noteq> MIN_MAX_SCALER" "NONE \<noteq> MEAN_NORMALIZATION"
  "NONE \<noteq> MAX_ABS_SCALER" "NONE \<noteq> PCAWHITENING" "NONE \<noteq> ZCAWHITENING"
  by (simp_all add: NONE_def STANDARD_SCALER_def MIN_MAX_SCALER_def
      MEAN_NORMALIZATION_def MAX_ABS_SCALER_def PCAWHITENING_def ZCAWHITENING_def)


section \<open>Moving\<close>

text \<open>
  C2. After \<open>B\<close> is move-constructed from \<open>A\<close>, \<open>B\<close> has every member \<open>A\<close> had: the same
  pointers, so the instances themselves and not copies, and the same scalar members.
  \<open>A\<close> is left as a newly constructed model with the default arguments: tag NONE, no
  instance, bounds 0 and 1, epsilon 0.00005. No instance is owned by both.
\<close>

theorem move_transfers_ownership:
  "fst (ScalingModel_move A) = A
   \<and> snd (ScalingModel_move A) = ScalingModel_init 0 1 0.00005
   \<and> scalerType (snd (ScalingModel_move A)) = NONE
   \<and> owned (fst (ScalingModel_move A)) = owned A
   \<and> owned (snd (ScalingModel_move A)) = []
   \<and> set (owned (fst (ScalingModel_move A))) \<inter> set (owned (snd (ScalingModel_move A))) = {}"
  by (simp add: ScalingModel_move_def ScalingModel_init_def NONE_def owned_def all_classes_def)

section \<open>Self-assignment\<close>

text \<open>
  C5. Copy-assigning a model to itself changes nothing: the free store and every member
  of the model are as before, so no instance is freed or leaked, and the result is the
  model at \<open>this\<close>.
\<close>

theorem self_assignment_noop:
  "operator_assign env h (a, A) (a, A) = Inr (h, A)"
  by (simp add: operator_assign_def)

section \<open>The tag NONE\<close>

text \<open>
  C7. With the tag NONE, \<open>Fit\<close> returns without an exception and without a fault, and
  leaves the free store and every member of the model as they were: nothing is
  constructed and nothing released. \<open>Transform\<close> with the tag NONE returns too, and
  leaves \<open>output\<close> as it was.
\<close>

theorem none_is_silent_noop:
  "scalerType m = NONE \<Longrightarrow>
     Fit env h m input = Inr ((h, m), None) \<and> Transform env h m input output = Inr output"
  by (simp add: Fit_def Transform_def NONE_branches)

theorem none_is_silent_noop_witness:
  "scalerType (ScalingModel_init 0 1 0.00005) = NONE
   \<and> Fit toy [] (ScalingModel_init 0 1 0.00005) [2, 4, 6]
       = Inr (([], ScalingModel_init 0 1 0.00005), None)
   \<and> Transform toy [] (ScalingModel_init 0 1 0.00005) [2, 4, 6] [9] = Inr [9]"
proof -
  have tag: "scalerType (ScalingModel_init 0 1 0.00005) = NONE"
    by (simp add: ScalingModel_init_def NONE_def)
  from none_is_silent_noop [OF tag, of toy "[]" "[2, 4, 6]" "[9]"] tag
  show ?thesis by simp
qed

section \<open>The vectorised Elliot function\<close>

text \<open>
  C10. On the vector with the single element 1, the vectorised overload assigns 2 to
  \<open>y\<close>, and on a column of two elements it throws; the scalar overload gives 1/2 at 1.
  The vectorised overload multiplies by \<open>1 + |x|\<close> where the scalar one divides.
\<close>

theorem elliot_vectorised_differs:
  "ElliotFunction_Fn_vec [[1]] = Inr [[2]]
   \<and> map (map ElliotFunction_Fn) [[1]] = [[1 / 2]]
   \<and> ElliotFunction_Fn_vec [[1], [2]] = Inl IncompatibleDimensions"
  by (simp add: ElliotFunction_Fn_vec_def ElliotFunction_Fn_def mat_times_def n_cols_def
      n_rows_def scalar_plus_def arma_abs_def dot_def column_def)


lemmas tag_defs = NONE_def STANDARD_SCALER_def MIN_MAX_SCALER_def
      MEAN_NORMALIZATION_def MAX_ABS_SCALER_def PCAWHITENING_def ZCAWHITENING_def

lemmas toy_eval = toy_def bump_def NULL_def Fit_def refit_def new_obj_def delete_obj_def
  deref_def Transform_def InverseTransform_def through_def ScalingModel_init_def
  set_ScalerType_def owned_def all_classes_def tag_defs

section \<open>What Fit constructs\<close>

text \<open>
  C6. When the tag is that of class \<open>k\<close> and the member of that class is null or points to
  a live object, \<open>Fit\<close> returns, and afterwards the member of class \<open>k\<close> holds the
  non-null address \<open>p\<close> of a new object, an address that was free or has just been
  freed. The object at \<open>p\<close> is the one made by the constructor call \<open>configured m k\<close>
  (the bounds for the min-max scaler, epsilon for the two whitening scalers, no argument
  for the others) after that class's fit on the input. The object the member pointed to
  before is released. Every other pointer member, the tag, the bounds, epsilon and every
  other object are as before.
\<close>

theorem Fit_constructs_configured_and_fits:
  assumes "fresh_allocator (alloc env)"
    and "scalerType m = tag k"
    and "slot k m = NULL \<or> map_of h (slot k m) \<noteq> None"
  shows "\<exists>h' m' p. Fit env h m input
            = Inr ((h', m'), snd (fit env k (construct env (configured m k)) input))
          \<and> slot k m' = p \<and> p \<noteq> NULL \<and> (map_of h p = None \<or> p = slot k m)
          \<and> (\<forall>j. j \<noteq> k \<longrightarrow> slot j m' = slot j m)
          \<and> scalerType m' = scalerType m \<and> minValue m' = minValue m
          \<and> maxValue m' = maxValue m \<and> epsilon m' = epsilon m
          \<and> map_of h' p = Some (fst (fit env k (construct env (configured m k)) input))
          \<and> (slot k m \<noteq> p \<longrightarrow> slot k m \<noteq> NULL \<longrightarrow> map_of h' (slot k m) = None)
          \<and> (\<forall>q. q \<noteq> p \<longrightarrow> q \<noteq> slot k m \<longrightarrow> map_of h' q = map_of h q)"
proof -
  have old: "slot (class_of (configured m k)) m = NULL
      \<or> map_of h (slot (class_of (configured m k)) m) \<noteq> None"
    using assms(3) by (simp add: configured_class)
  from refit_effect [OF assms(1) old, of input] obtain h' p where
    r: "refit env h m (configured m k) input = Inr ((h', set_slot k p m), snd (fit env k (construct env (configured m k)) input))"
    and p: "p \<noteq> NULL" "map_of h p = None \<or> p = slot k m"
    and c: "\<And>q. map_of h' q =
                (if q = p then Some (fst (fit env k (construct env (configured m k)) input))
                 else if q = slot k m \<and> q \<noteq> NULL then None
                 else map_of h q)"
    unfolding configured_class by blast
  have w: "slot j (set_slot k p m) = (if j = k then p else slot j m)" for j
    by (cases k; cases j; simp)
  have v: "scalerType (set_slot k p m) = scalerType m" "minValue (set_slot k p m) = minValue m"
    "maxValue (set_slot k p m) = maxValue m" "epsilon (set_slot k p m) = epsilon m"
    by (cases k; simp)+
  show ?thesis
    by (intro exI [of _ h'] exI [of _ "set_slot k p m"] exI [of _ p])
       (simp add: Fit_dispatch [OF assms(2)] r p c w v)
qed

theorem Fit_constructs_configured_and_fits_witness:
  "fresh_allocator (alloc toy)
   \<and> scalerType (ScalingModel_init 0 1 0.00005
         \<lparr>scalerType := MIN_MAX_SCALER, minmaxscale := 1, standardscale := 2\<rparr>)
       = tag MinMaxScaler
   \<and> map_of [(1, (New_MinMaxScaler 3 4, [5::int])), (2, (New_StandardScaler, [7]))]
       (slot MinMaxScaler (ScalingModel_init 0 1 0.00005
          \<lparr>scalerType := MIN_MAX_SCALER, minmaxscale := 1, standardscale := 2\<rparr>))
       \<noteq> None
   \<and> (\<exists>h' m' p. Fit toy [(1, (New_MinMaxScaler 3 4, [5])), (2, (New_StandardScaler, [7]))]
               (ScalingModel_init 0 1 0.00005
                  \<lparr>scalerType := MIN_MAX_SCALER, minmaxscale := 1, standardscale := 2\<rparr>)
               [2, 4, 6]
             = Inr ((h', m'), None)
           \<and> slot MinMaxScaler m' = p \<and> p = 3
           \<and> slot StandardScaler m' = 2
           \<and> map_of h' p = Some (New_MinMaxScaler 0 1, [2, 4, 6])
           \<and> map_of h' 1 = None
           \<and> map_of h' 2 = Some (New_StandardScaler, [7]))"
proof -
  let ?m = "ScalingModel_init 0 1 0.00005
              \<lparr>scalerType := MIN_MAX_SCALER, minmaxscale := 1, standardscale := 2\<rparr>"
  let ?h = "[(1::nat, (New_MinMaxScaler 3 4, [5::int])), (2, (New_StandardScaler, [7]))]"
  have a: "fresh_allocator (alloc toy)"
    by (simp add: toy_def bump_fresh)
  have t: "scalerType ?m = tag MinMaxScaler"
    by simp
  have l: "map_of ?h (slot MinMaxScaler ?m) \<noteq> None"
    by simp
  from l have l': "slot MinMaxScaler ?m = NULL \<or> map_of ?h (slot MinMaxScaler ?m) \<noteq> None" ..
  from Fit_constructs_configured_and_fits [OF a t l', of "[2, 4, 6]"]
  obtain h' m' p where
    r: "Fit toy ?h ?m [2, 4, 6]
       = Inr ((h', m'),
              snd (fit toy MinMaxScaler (construct toy (configured ?m MinMaxScaler)) [2, 4, 6]))"
    and s: "slot MinMaxScaler m' = p"
      "\<forall>j. j \<noteq> MinMaxScaler \<longrightarrow> slot j m' = slot j ?m"
      "map_of h' p
         = Some (fst (fit toy MinMaxScaler (construct toy (configured ?m MinMaxScaler)) [2, 4, 6]))"
      "slot MinMaxScaler ?m \<noteq> p \<longrightarrow> slot MinMaxScaler ?m \<noteq> NULL
         \<longrightarrow> map_of h' (slot MinMaxScaler ?m) = None"
      "\<forall>q. q \<noteq> p \<longrightarrow> q \<noteq> slot MinMaxScaler ?m \<longrightarrow> map_of h' q = map_of ?h q"
    by blast
  have e: "Fit toy ?h ?m [2, 4, 6]
       = Inr (([(3, (New_MinMaxScaler 0 1, [2, 4, 6])), (2, (New_StandardScaler, [7]))],
               ?m\<lparr>minmaxscale := 3\<rparr>), None)"
    by (simp add: toy_eval AList.delete_eq)
  from r e have m': "m' = ?m\<lparr>minmaxscale := 3\<rparr>"
    by simp
  from s(1) m' have p: "p = 3"
    by simp
  have r': "Fit toy ?h ?m [2, 4, 6] = Inr ((h', m'), None)"
    using r by (simp add: toy_def)
  have o: "slot StandardScaler m' = 2"
    using s(2) [rule_format, of StandardScaler] by simp
  have c: "map_of h' p = Some (New_MinMaxScaler 0 1, [2, 4, 6])"
    using s(3) by (simp add: toy_def ScalingModel_init_def)
  have d: "map_of h' 1 = None"
    using s(4) p by (simp add: NULL_def)
  have k: "map_of h' 2 = Some (New_StandardScaler, [7])"
    using s(5) p by simp
  from a t l r' s(1) p o c d k show ?thesis
    by blast
qed

section \<open>A fit that throws\<close>

text \<open>
  C8, as stated, fails: a model with the tag STANDARD that owns nothing is fitted on an
  input on which the scaler's fit throws. The exception reaches the caller, and the model
  then owns the newly constructed scaler: it is neither in the state before the call nor
  empty.
\<close>

theorem failed_fit_keeps_new_instance:
  "Fit toy [] (set_ScalerType STANDARD_SCALER (ScalingModel_init 0 1 0.00005)) []
     = Inr (([(1, (New_StandardScaler, []))],
             (set_ScalerType STANDARD_SCALER (ScalingModel_init 0 1 0.00005))\<lparr>standardscale := 1\<rparr>),
            Some ''empty input'')
   \<and> owned (set_ScalerType STANDARD_SCALER (ScalingModel_init 0 1 0.00005)) = []
   \<and> owned ((set_ScalerType STANDARD_SCALER (ScalingModel_init 0 1 0.00005))\<lparr>standardscale := 1\<rparr>)
       = [1]"
  by (simp add: toy_eval)

text \<open>
  C8, amended. When the scaler's fit throws \<open>e\<close>, \<open>Fit\<close> leaves with the same \<open>e\<close>.
  Afterwards the member of that class holds the non-null address \<open>p\<close> of the newly
  constructed object, in the state in which the failed fit left it, so the model owns an
  instance and is not empty. The object the member pointed to before is released. Every
  other pointer member, the tag, the bounds, epsilon and every other object are as
  before.
\<close>

theorem failed_fit_propagates:
  assumes "fresh_allocator (alloc env)"
    and "scalerType m = tag k"
    and "slot k m = NULL \<or> map_of h (slot k m) \<noteq> None"
    and "snd (fit env k (construct env (configured m k)) input) = Some e"
  shows "\<exists>h' m' p. Fit env h m input = Inr ((h', m'), Some e)
          \<and> slot k m' = p \<and> p \<noteq> NULL \<and> (map_of h p = None \<or> p = slot k m)
          \<and> p \<in> set (owned m')
          \<and> (\<forall>j. j \<noteq> k \<longrightarrow> slot j m' = slot j m)
          \<and> scalerType m' = scalerType m \<and> minValue m' = minValue m
          \<and> maxValue m' = maxValue m \<and> epsilon m' = epsilon m
          \<and> map_of h' p = Some (fst (fit env k (construct env (configured m k)) input))
          \<and> (slot k m \<noteq> p \<longrightarrow> slot k m \<noteq> NULL \<longrightarrow> map_of h' (slot k m) = None)
          \<and> (\<forall>q. q \<noteq> p \<longrightarrow> q \<noteq> slot k m \<longrightarrow> map_of h' q = map_of h q)"
proof -
  have old: "slot (class_of (configured m k)) m = NULL
      \<or> map_of h (slot (class_of (configured m k)) m) \<noteq> None"
    using assms(3) by (simp add: configured_class)
  from refit_effect [OF assms(1) old, of input] obtain h' p where
    r: "refit env h m (configured m k) input = Inr ((h', set_slot k p m), Some e)"
    and p: "p \<noteq> NULL" "map_of h p = None \<or> p = slot k m"
    and c: "\<And>q. map_of h' q =
                (if q = p then Some (fst (fit env k (construct env (configured m k)) input))
                 else if q = slot k m \<and> q \<noteq> NULL then None
                 else map_of h q)"
    unfolding configured_class assms(4) by blast
  have w: "slot j (set_slot k p m) = (if j = k then p else slot j m)" for j
    by (cases k; cases j; simp)
  have v: "scalerType (set_slot k p m) = scalerType m" "minValue (set_slot k p m) = minValue m"
    "maxValue (set_slot k p m) = maxValue m" "epsilon (set_slot k p m) = epsilon m"
    by (cases k; simp)+
  have o: "p \<in> set (owned (set_slot k p m))"
    unfolding in_owned using w [of k] p(1) by auto
  show ?thesis
    by (intro exI [of _ h'] exI [of _ "set_slot k p m"] exI [of _ p])
       (simp add: Fit_dispatch [OF assms(2)] r p c w v o)
qed

theorem failed_fit_propagates_witness:
  "fresh_allocator (alloc toy)
   \<and> scalerType (ScalingModel_init 0 1 0.00005
         \<lparr>scalerType := STANDARD_SCALER, minmaxscale := 2, standardscale := 1\<rparr>)
       = tag StandardScaler
   \<and> map_of [(1, (New_StandardScaler, [5::int])), (2, (New_MinMaxScaler 0 1, [7]))]
       (slot StandardScaler (ScalingModel_init 0 1 0.00005
          \<lparr>scalerType := STANDARD_SCALER, minmaxscale := 2, standardscale := 1\<rparr>))
       \<noteq> None
   \<and> snd (fit toy StandardScaler
         (construct toy (configured (ScalingModel_init 0 1 0.00005
            \<lparr>scalerType := STANDARD_SCALER, minmaxscale := 2, standardscale := 1\<rparr>)
            StandardScaler)) []) = Some ''empty input''
   \<and> (\<exists>h' m' p. Fit toy [(1, (New_StandardScaler, [5])), (2, (New_MinMaxScaler 0 1, [7]))]
               (ScalingModel_init 0 1 0.00005
                  \<lparr>scalerType := STANDARD_SCALER, minmaxscale := 2, standardscale := 1\<rparr>) []
             = Inr ((h', m'), Some ''empty input'')
           \<and> slot StandardScaler m' = p \<and> p = 3 \<and> p \<in> set (owned m')
           \<and> slot MinMaxScaler m' = 2
           \<and> map_of h' p = Some (New_StandardScaler, [])
           \<and> map_of h' 1 = None
           \<and> map_of h' 2 = Some (New_MinMaxScaler 0 1, [7]))"
proof -
  let ?m = "ScalingModel_init 0 1 0.00005
              \<lparr>scalerType := STANDARD_SCALER, minmaxscale := 2, standardscale := 1\<rparr>"
  let ?h = "[(1::nat, (New_StandardScaler, [5::int])), (2, (New_MinMaxScaler 0 1, [7]))]"
  have a: "fresh_allocator (alloc toy)"
    by (simp add: toy_def bump_fresh)
  have t: "scalerType ?m = tag StandardScaler"
    by simp
  have l: "map_of ?h (slot StandardScaler ?m) \<noteq> None"
    by simp
  from l have l': "slot StandardScaler ?m = NULL \<or> map_of ?h (slot StandardScaler ?m) \<noteq> None" ..
  have f: "snd (fit toy StandardScaler (construct toy (configured ?m StandardScaler)) [])
      = Some ''empty input''"
    by (simp add: toy_def)
  from failed_fit_propagates [OF a t l' f]
  obtain h' m' p where
    r: "Fit toy ?h ?m [] = Inr ((h', m'), Some ''empty input'')"
    and s: "slot StandardScaler m' = p" "p \<in> set (owned m')"
      "\<forall>j. j \<noteq> StandardScaler \<longrightarrow> slot j m' = slot j ?m"
      "map_of h' p
         = Some (fst (fit toy StandardScaler (construct toy (configured ?m StandardScaler)) []))"
      "slot StandardScaler ?m \<noteq> p \<longrightarrow> slot StandardScaler ?m \<noteq> NULL
         \<longrightarrow> map_of h' (slot StandardScaler ?m) = None"
      "\<forall>q. q \<noteq> p \<longrightarrow> q \<noteq> slot StandardScaler ?m \<longrightarrow> map_of h' q = map_of ?h q"
    by blast
  have e: "Fit toy ?h ?m []
       = Inr (([(3, (New_StandardScaler, [])), (2, (New_MinMaxScaler 0 1, [7]))],
               ?m\<lparr>standardscale := 3\<rparr>), Some ''empty input'')"
    by (simp add: toy_eval AList.delete_eq)
  from r e have m': "m' = ?m\<lparr>standardscale := 3\<rparr>"
    by simp
  from s(1) m' have p: "p = 3"
    by simp
  have o: "slot MinMaxScaler m' = 2"
    using s(3) [rule_format, of MinMaxScaler] by simp
  have c: "map_of h' p = Some (New_StandardScaler, [])"
    using s(4) by (simp add: toy_def)
  have d: "map_of h' 1 = None"
    using s(5) p by (simp add: NULL_def)
  have k: "map_of h' 2 = Some (New_MinMaxScaler 0 1, [7])"
    using s(6) p by simp
  from a t l f r s(1) p s(2) o c d k show ?thesis
    by blast
qed

section \<open>Transforming before fitting\<close>

lemma Transform_null:
  "scalerType m = tag k \<Longrightarrow> slot k m = NULL \<Longrightarrow>
     Transform env h m input output = Inl (Undefined NullDereference)"
  by (cases k) (simp_all add: Transform_def through_def deref_null tag_defs)

lemma InverseTransform_null:
  "scalerType m = tag k \<Longrightarrow> slot k m = NULL \<Longrightarrow>
     InverseTransform env h m input output = Inl (Undefined NullDereference)"
  by (cases k) (simp_all add: InverseTransform_def through_def deref_null tag_defs)

text \<open>
  C3, as stated, fails: on a newly constructed model, which owns nothing, \<open>Transform\<close> and
  \<open>InverseTransform\<close> return normally and leave \<open>output\<close> as it was; once the tag is set
  to MINMAX and before any \<open>Fit\<close>, \<open>Transform\<close> dereferences a null pointer. Neither
  raises an error of its own.
\<close>

theorem unfitted_transform_not_reported:
  "Transform toy [] (ScalingModel_init 0 1 0.00005) [2, 4, 6] [9] = Inr [9]
   \<and> InverseTransform toy [] (ScalingModel_init 0 1 0.00005) [2, 4, 6] [9] = Inr [9]
   \<and> owned (ScalingModel_init 0 1 0.00005) = []
   \<and> Transform toy [] (set_ScalerType MIN_MAX_SCALER (ScalingModel_init 0 1 0.00005)) [2, 4, 6] [9]
       = Inl (Undefined NullDereference)"
  by (simp add: toy_eval)

text \<open>
  C3, amended. With the tag NONE, \<open>Transform\<close> and \<open>InverseTransform\<close> return normally
  and leave \<open>output\<close> as it was. With the tag of a class whose member is null, they
  dereference the null pointer, which is undefined behaviour.
\<close>

theorem unfitted_transform_behaviour:
  "(scalerType m = NONE \<longrightarrow>
      Transform env h m input out = Inr out
      \<and> InverseTransform env h m input out = Inr out)
   \<and> (scalerType m = tag k \<and> slot k m = NULL \<longrightarrow>
      Transform env h m input out = Inl (Undefined NullDereference)
      \<and> InverseTransform env h m input out = Inl (Undefined NullDereference))"
  by (simp add: Transform_null InverseTransform_null)
     (simp add: Transform_def InverseTransform_def NONE_branches)

theorem unfitted_transform_behaviour_witness:
  "scalerType (ScalingModel_init 0 1 0.00005) = NONE
   \<and> Transform toy [] (ScalingModel_init 0 1 0.00005) [2, 4, 6] [9] = Inr [9]
   \<and> InverseTransform toy [] (ScalingModel_init 0 1 0.00005) [2, 4, 6] [9] = Inr [9]
   \<and> scalerType (set_ScalerType PCAWHITENING (ScalingModel_init 0 1 0.00005)) = tag PcaWhitening
   \<and> slot PcaWhitening (set_ScalerType PCAWHITENING (ScalingModel_init 0 1 0.00005)) = NULL
   \<and> Transform toy [] (set_ScalerType PCAWHITENING (ScalingModel_init 0 1 0.00005)) [2, 4, 6] [9]
       = Inl (Undefined NullDereference)
   \<and> InverseTransform toy [] (set_ScalerType PCAWHITENING (ScalingModel_init 0 1 0.00005)) [2, 4, 6] [9]
       = Inl (Undefined NullDereference)"
proof -
  let ?m = "ScalingModel_init 0 1 0.00005"
  let ?n = "set_ScalerType PCAWHITENING (ScalingModel_init 0 1 0.00005)"
  have a: "scalerType ?m = NONE"
    by (simp add: ScalingModel_init_def NONE_def)
  have b: "scalerType ?n = tag PcaWhitening" "slot PcaWhitening ?n = NULL"
    by (simp_all add: ScalingModel_init_def set_ScalerType_def)
  from unfitted_transform_behaviour
    [where m = ?m and env = toy and h = "[]" and input = "[2, 4, 6]" and out = "[9]"
       and k = PcaWhitening] a
  have "Transform toy [] ?m [2, 4, 6] [9] = Inr [9]
      \<and> InverseTransform toy [] ?m [2, 4, 6] [9] = Inr [9]"
    by blast
  moreover from unfitted_transform_behaviour
    [where m = ?n and env = toy and h = "[]" and input = "[2, 4, 6]" and out = "[9]"
       and k = PcaWhitening] b
  have "Transform toy [] ?n [2, 4, 6] [9] = Inl (Undefined NullDereference)
      \<and> InverseTransform toy [] ?n [2, 4, 6] [9] = Inl (Undefined NullDereference)"
    by blast
  ultimately show ?thesis using a b by blast
qed


section \<open>Ownership through a history\<close>

lemma owned_live_iff:
  "list_all (\<lambda>p. map_of h p \<noteq> None) (owned m)
     \<longleftrightarrow> (\<forall>k. slot k m \<noteq> NULL \<longrightarrow> map_of h (slot k m) \<noteq> None)"
  unfolding list_all_iff Ball_def in_owned by blast

lemma well_formed_iff:
  "well_formed h m \<longleftrightarrow>
     (\<forall>k k'. k \<noteq> k' \<longrightarrow> slot k m \<noteq> NULL \<longrightarrow> slot k m \<noteq> slot k' m)
     \<and> (\<forall>k. slot k m \<noteq> NULL \<longrightarrow> map_of h (slot k m) \<noteq> None)"
  unfolding well_formed_def distinct_owned owned_live_iff by (rule refl)

lemma separate_iff:
  "separate a b \<longleftrightarrow> (\<forall>k k'. slot k a \<noteq> NULL \<longrightarrow> slot k a \<noteq> slot k' b)"
  unfolding separate_def list_all_iff Ball_def in_owned by metis

lemma owned_set_ScalerType [simp]: "owned (set_ScalerType t m) = owned m"
  by (simp add: owned_def set_ScalerType_def all_classes_def)

lemma length_owned: "length (owned m) \<le> 6"
proof -
  have "length (owned m) \<le> length (map (\<lambda>k. slot k m) all_classes)"
    unfolding owned_def by (rule length_filter_le)
  then show ?thesis by (simp add: all_classes_def)
qed

lemma exact_iff:
  "exact h m \<longleftrightarrow>
     (\<forall>k k'. k \<noteq> k' \<longrightarrow> slot k m \<noteq> NULL \<longrightarrow> slot k m \<noteq> slot k' m)
     \<and> (\<forall>q. map_of h q \<noteq> None \<longleftrightarrow> q \<noteq> NULL \<and> (\<exists>k. slot k m = q))"
proof -
  have "set (owned m) = fst ` set h \<longleftrightarrow> (\<forall>q. map_of h q \<noteq> None \<longleftrightarrow> q \<noteq> NULL \<and> (\<exists>k. slot k m = q))"
    unfolding dom_map_of_conv_image_fst [symmetric] set_eq_iff in_owned
    by (auto simp: dom_def)
  then show ?thesis by (simp add: exact_def distinct_owned)
qed

lemma Fit_exact:
  assumes fresh: "fresh_allocator (alloc env)" and ex: "exact h m"
  shows "\<exists>h' m' r. Fit env h m x = Inr ((h', m'), r) \<and> exact h' m'
           \<and> scalerType m' = scalerType m
           \<and> ((\<forall>k. scalerType m \<noteq> tag k) \<longrightarrow> h' = h \<and> m' = m)
           \<and> (\<forall>k. scalerType m = tag k \<longrightarrow>
                 slot k m' \<noteq> NULL
                 \<and> map_of h' (slot k m')
                     = Some (fst (fit env k (construct env (configured m k)) x))
                 \<and> (\<forall>j. j \<noteq> k \<longrightarrow>
                        slot j m' = slot j m \<and> map_of h' (slot j m) = map_of h (slot j m)))"
proof (cases "\<exists>k. scalerType m = tag k")
  case False
  then have "Fit env h m x = Inr ((h, m), None)"
    by (simp add: Fit_skip)
  with ex False show ?thesis by simp
next
  case True
  then obtain k where k: "scalerType m = tag k" ..
  from ex have d: "\<And>i j. i \<noteq> j \<Longrightarrow> slot i m \<noteq> NULL \<Longrightarrow> slot i m \<noteq> slot j m"
    and l: "\<And>q. map_of h q \<noteq> None \<longleftrightarrow> q \<noteq> NULL \<and> (\<exists>j. slot j m = q)"
    unfolding exact_iff by blast+
  have old: "slot (class_of (configured m k)) m = NULL
      \<or> map_of h (slot (class_of (configured m k)) m) \<noteq> None"
    unfolding configured_class using l by blast
  from refit_effect [OF fresh old, of x] obtain h' p r where
    r: "refit env h m (configured m k) x = Inr ((h', set_slot k p m), r)"
    and p: "p \<noteq> NULL" "map_of h p = None \<or> p = slot k m"
    and c0: "\<And>q. map_of h' q =
                (if q = p then Some (fst (fit env k (construct env (configured m k)) x))
                 else if q = slot k m \<and> q \<noteq> NULL then None
                 else map_of h q)"
    unfolding configured_class by blast
  have c: "\<And>q. map_of h' q \<noteq> None \<longleftrightarrow>
                (if q = p then True
                 else if q = slot k m \<and> q \<noteq> NULL then False
                 else map_of h q \<noteq> None)"
    by (simp add: c0)
  have pf: "\<And>j. j \<noteq> k \<Longrightarrow> slot j m \<noteq> p"
    using p d l by metis
  have d': "\<And>i j. i \<noteq> j \<Longrightarrow> slot i (set_slot k p m) \<noteq> NULL
      \<Longrightarrow> slot i (set_slot k p m) \<noteq> slot j (set_slot k p m)"
    unfolding slot_set_slot using d pf p(1) by (metis (full_types))
  have l': "\<And>q. map_of h' q \<noteq> None \<longleftrightarrow> q \<noteq> NULL \<and> (\<exists>j. slot j (set_slot k p m) = q)"
  proof -
    fix q
    show "map_of h' q \<noteq> None \<longleftrightarrow> q \<noteq> NULL \<and> (\<exists>j. slot j (set_slot k p m) = q)"
    proof (cases "q = p")
      case True
      then show ?thesis using p(1) c [of q] by (auto simp: slot_set_slot)
    next
      case False
      have "(\<exists>j. slot j (set_slot k p m) = q) \<longleftrightarrow> (\<exists>j. j \<noteq> k \<and> slot j m = q)"
        using False by (auto simp: slot_set_slot split: if_splits)
      moreover have "q \<noteq> NULL \<Longrightarrow> (\<exists>j. j \<noteq> k \<and> slot j m = q) \<longleftrightarrow> q \<noteq> slot k m \<and> (\<exists>j. slot j m = q)"
        using d by metis
      ultimately show ?thesis
        using False c [of q] l [of q] by auto
    qed
  qed
  have e': "exact h' (set_slot k p m)"
    unfolding exact_iff using d' l' by blast
  have keep: "map_of h' (slot j m) = map_of h (slot j m)" if "j \<noteq> k" for j
  proof -
    have "slot j m \<noteq> p"
      using that by (rule pf)
    moreover have "\<not> (slot j m = slot k m \<and> slot j m \<noteq> NULL)"
      using d [OF that] by blast
    ultimately show ?thesis
      using c0 [of "slot j m"] by auto
  qed
  have new: "slot i (set_slot k p m) \<noteq> NULL
      \<and> map_of h' (slot i (set_slot k p m))
          = Some (fst (fit env i (construct env (configured m i)) x))
      \<and> (\<forall>j. j \<noteq> i \<longrightarrow> slot j (set_slot k p m) = slot j m
             \<and> map_of h' (slot j m) = map_of h (slot j m))"
    if "scalerType m = tag i" for i
  proof -
    from that k have "i = k"
      by (simp add: tag_inj)
    then show ?thesis
      using p(1) c0 [of p] keep by (simp add: slot_set_slot)
  qed
  have "Fit env h m x = Inr ((h', set_slot k p m), r)"
    using r by (simp add: Fit_dispatch [OF k])
  moreover have "scalerType (set_slot k p m) = scalerType m"
    by (simp add: set_slot_scalars)
  moreover have "(\<forall>k. scalerType m \<noteq> tag k) \<longrightarrow> h' = h \<and> set_slot k p m = m"
    using k by blast
  ultimately show ?thesis
    using e' new by blast
qed

lemma perform_exact:
  assumes fresh: "fresh_allocator (alloc env)" and ex: "exact h m"
  shows "\<exists>h' m'. perform env c (h, m) = Inr (h', m') \<and> exact h' m'"
proof (cases c)
  case (SetScalerType t)
  with ex show ?thesis by (simp add: exact_def)
next
  case (CallFit x)
  from Fit_exact [OF fresh ex, of x] obtain h' m' r where
    "Fit env h m x = Inr ((h', m'), r)" "exact h' m'" by blast
  with CallFit show ?thesis by simp
qed

lemma perform_all_exact:
  assumes fresh: "fresh_allocator (alloc env)"
  shows "exact h m \<Longrightarrow> \<exists>h' m'. perform_all env cs (h, m) = Inr (h', m') \<and> exact h' m'"
proof (induction cs arbitrary: h m)
  case Nil
  then show ?case by simp
next
  case (Cons c cs)
  from perform_exact [OF fresh Cons.prems, of c] obtain h1 m1 where
    s: "perform env c (h, m) = Inr (h1, m1)" and e: "exact h1 m1" by blast
  from Cons.IH [OF e] s show ?case by simp
qed

lemma perform_all_append:
  "perform_all env (cs @ ds) s = and_then (perform_all env cs s) (perform_all env ds)"
  by (induction cs arbitrary: s) (auto simp: and_then_def split: sum.splits)

lemma exact_init: "exact [] (ScalingModel_init lo hi e)"
  by (simp add: exact_def owned_def ScalingModel_init_def all_classes_def)

text \<open>
  C1, amended. After every sequence of tag changes and calls of \<open>Fit\<close> on a newly
  constructed model, whether or not a call threw, the non-null pointer members are
  pairwise different and the objects they point to are exactly the live objects: nothing
  is shared, dangling or leaked, and each class has at most one instance, at most six in
  all. From such a state, setting the tag changes the tag and nothing else. A further
  call of \<open>Fit\<close> returns and keeps the tag; when the tag is that of no class it changes
  nothing; when the tag is that of class \<open>k\<close>, the member of class \<open>k\<close> is afterwards
  owned and points to the newly constructed and fitted object, while the member of every
  other class and the object it points to are as before.
\<close>

theorem one_instance_per_class:
  assumes "fresh_allocator (alloc env)"
  shows "\<exists>h m. history env lo hi e cs = Inr (h, m)
           \<and> distinct (owned m) \<and> set (owned m) = fst ` set h \<and> length (owned m) \<le> 6
           \<and> (\<forall>t. history env lo hi e (cs @ [SetScalerType t]) = Inr (h, set_ScalerType t m))
           \<and> (\<forall>x. \<exists>h' m'. history env lo hi e (cs @ [CallFit x]) = Inr (h', m')
                  \<and> scalerType m' = scalerType m
                  \<and> ((\<forall>k. scalerType m \<noteq> tag k) \<longrightarrow> h' = h \<and> m' = m)
                  \<and> (\<forall>k. scalerType m = tag k \<longrightarrow>
                        slot k m' \<in> set (owned m')
                        \<and> map_of h' (slot k m')
                            = Some (fst (fit env k (construct env (configured m k)) x))
                        \<and> (\<forall>j. j \<noteq> k \<longrightarrow>
                               slot j m' = slot j m
                               \<and> map_of h' (slot j m) = map_of h (slot j m))))"
proof -
  from perform_all_exact [OF assms exact_init, of cs lo hi e] obtain h m where
    r: "perform_all env cs ([], ScalingModel_init lo hi e) = Inr (h, m)" and ex: "exact h m"
    by blast
  have st: "history env lo hi e (cs @ [SetScalerType t]) = Inr (h, set_ScalerType t m)" for t
    by (simp add: history_def perform_all_append r)
  have ft: "\<exists>h' m'. history env lo hi e (cs @ [CallFit x]) = Inr (h', m')
                  \<and> scalerType m' = scalerType m
                  \<and> ((\<forall>k. scalerType m \<noteq> tag k) \<longrightarrow> h' = h \<and> m' = m)
                  \<and> (\<forall>k. scalerType m = tag k \<longrightarrow>
                        slot k m' \<in> set (owned m')
                        \<and> map_of h' (slot k m')
                            = Some (fst (fit env k (construct env (configured m k)) x))
                        \<and> (\<forall>j. j \<noteq> k \<longrightarrow>
                               slot j m' = slot j m
                               \<and> map_of h' (slot j m) = map_of h (slot j m)))" for x
  proof -
    from Fit_exact [OF assms ex, of x] obtain h' m' r' where
      f: "Fit env h m x = Inr ((h', m'), r')"
      and t: "scalerType m' = scalerType m"
      and n: "(\<forall>k. scalerType m \<noteq> tag k) \<longrightarrow> h' = h \<and> m' = m"
      and k: "\<forall>k. scalerType m = tag k \<longrightarrow>
                 slot k m' \<noteq> NULL
                 \<and> map_of h' (slot k m')
                     = Some (fst (fit env k (construct env (configured m k)) x))
                 \<and> (\<forall>j. j \<noteq> k \<longrightarrow>
                        slot j m' = slot j m \<and> map_of h' (slot j m) = map_of h (slot j m))"
      by blast
    have "history env lo hi e (cs @ [CallFit x]) = Inr (h', m')"
      by (simp add: history_def perform_all_append r f)
    moreover from k have "\<forall>k. scalerType m = tag k \<longrightarrow>
                        slot k m' \<in> set (owned m')
                        \<and> map_of h' (slot k m')
                            = Some (fst (fit env k (construct env (configured m k)) x))
                        \<and> (\<forall>j. j \<noteq> k \<longrightarrow>
                               slot j m' = slot j m
                               \<and> map_of h' (slot j m) = map_of h (slot j m))"
      unfolding in_owned by blast
    ultimately show ?thesis
      using t n by blast
  qed
  from r have "history env lo hi e cs = Inr (h, m)"
    by (simp add: history_def)
  moreover from ex have "distinct (owned m)" "set (owned m) = fst ` set h"
    by (simp_all add: exact_def)
  ultimately show ?thesis
    using length_owned [of m] st ft by blast
qed

text \<open>
  C1, as stated, fails: fitting with the tag STANDARD, setting the tag to MINMAX and
  fitting again leaves two instances owned, a standard scaler and a min-max scaler; the
  first does not match the tag.
\<close>

theorem two_instances_after_retag:
  "history toy 0 1 0.00005
     [SetScalerType STANDARD_SCALER, CallFit [2, 4, 6], SetScalerType MIN_MAX_SCALER, CallFit [1, 3]]
     = Inr ([(2, (New_MinMaxScaler 0 1, [1, 3])), (1, (New_StandardScaler, [2, 4, 6]))],
            \<lparr>scalerType = MIN_MAX_SCALER,
             minmaxscale = 2, maxabsscale = NULL, meanscale = NULL,
             standardscale = 1, pcascale = NULL, zcascale = NULL,
             minValue = 0, maxValue = 1, epsilon = 0.00005\<rparr>)
   \<and> owned \<lparr>scalerType = MIN_MAX_SCALER,
             minmaxscale = 2, maxabsscale = NULL, meanscale = NULL,
             standardscale = 1, pcascale = NULL, zcascale = NULL,
             minValue = 0, maxValue = 1, epsilon = 0.00005\<rparr> = [1, 2]"
  by (simp add: history_def toy_eval)

theorem one_instance_per_class_witness:
  "fresh_allocator (alloc toy)
   \<and> (\<exists>h m. history toy 0 1 0.00005
                [SetScalerType STANDARD_SCALER, CallFit [2, 4, 6], SetScalerType MIN_MAX_SCALER]
              = Inr (h, m)
          \<and> scalerType m = tag MinMaxScaler \<and> MinMaxScaler \<noteq> StandardScaler
          \<and> distinct (owned m) \<and> set (owned m) = fst ` set h \<and> length (owned m) \<le> 6
          \<and> slot StandardScaler m = 1
          \<and> (\<exists>h' m'. history toy 0 1 0.00005
                  ([SetScalerType STANDARD_SCALER, CallFit [2, 4, 6], SetScalerType MIN_MAX_SCALER]
                   @ [CallFit [1, 3]])
                = Inr (h', m')
              \<and> slot MinMaxScaler m' \<in> set (owned m')
              \<and> map_of h' (slot MinMaxScaler m') = Some (New_MinMaxScaler 0 1, [1, 3])
              \<and> slot StandardScaler m' = 1
              \<and> map_of h' 1 = map_of h 1))"
proof -
  let ?cs = "[SetScalerType STANDARD_SCALER, CallFit [2, 4, (6::int)], SetScalerType MIN_MAX_SCALER]"
  have a: "fresh_allocator (alloc toy)"
    by (simp add: toy_def bump_fresh)
  from one_instance_per_class [OF a, of 0 1 "0.00005" ?cs] obtain h m where
    r: "history toy 0 1 0.00005 ?cs = Inr (h, m)"
    and i: "distinct (owned m)" "set (owned m) = fst ` set h" "length (owned m) \<le> 6"
    and f: "\<forall>x. \<exists>h' m'. history toy 0 1 0.00005 (?cs @ [CallFit x]) = Inr (h', m')
                  \<and> scalerType m' = scalerType m
                  \<and> ((\<forall>k. scalerType m \<noteq> tag k) \<longrightarrow> h' = h \<and> m' = m)
                  \<and> (\<forall>k. scalerType m = tag k \<longrightarrow>
                        slot k m' \<in> set (owned m')
                        \<and> map_of h' (slot k m')
                            = Some (fst (fit toy k (construct toy (configured m k)) x))
                        \<and> (\<forall>j. j \<noteq> k \<longrightarrow>
                               slot j m' = slot j m
                               \<and> map_of h' (slot j m) = map_of h (slot j m)))"
    by blast
  have "history toy 0 1 0.00005 ?cs
      = Inr ([(1, (New_StandardScaler, [2, 4, 6]))],
             ScalingModel_init 0 1 0.00005\<lparr>scalerType := MIN_MAX_SCALER, standardscale := 1\<rparr>)"
    by (simp add: history_def toy_eval)
  with r have m: "m = ScalingModel_init 0 1 0.00005\<lparr>scalerType := MIN_MAX_SCALER, standardscale := 1\<rparr>"
    by simp
  then have t: "scalerType m = tag MinMaxScaler" and s: "slot StandardScaler m = 1"
    by simp_all
  have ne: "MinMaxScaler \<noteq> StandardScaler"
    by simp
  from f obtain h' m' where
    r': "history toy 0 1 0.00005 (?cs @ [CallFit [1, 3]]) = Inr (h', m')"
    and k: "\<forall>k. scalerType m = tag k \<longrightarrow>
                        slot k m' \<in> set (owned m')
                        \<and> map_of h' (slot k m')
                            = Some (fst (fit toy k (construct toy (configured m k)) [1, 3]))
                        \<and> (\<forall>j. j \<noteq> k \<longrightarrow>
                               slot j m' = slot j m
                               \<and> map_of h' (slot j m) = map_of h (slot j m))"
    by blast
  from k t have o: "slot MinMaxScaler m' \<in> set (owned m')"
    and c: "map_of h' (slot MinMaxScaler m')
              = Some (fst (fit toy MinMaxScaler (construct toy (configured m MinMaxScaler)) [1, 3]))"
    and j: "\<forall>j. j \<noteq> MinMaxScaler \<longrightarrow>
              slot j m' = slot j m \<and> map_of h' (slot j m) = map_of h (slot j m)"
    by blast+
  from c have c': "map_of h' (slot MinMaxScaler m') = Some (New_MinMaxScaler 0 1, [1, 3])"
    by (simp add: toy_def m ScalingModel_init_def)
  from j [rule_format, of StandardScaler] s
  have u: "slot StandardScaler m' = 1" "map_of h' 1 = map_of h 1"
    by simp_all
  from r' o c' u have "\<exists>h' m'. history toy 0 1 0.00005 (?cs @ [CallFit [1, 3]]) = Inr (h', m')
              \<and> slot MinMaxScaler m' \<in> set (owned m')
              \<and> map_of h' (slot MinMaxScaler m') = Some (New_MinMaxScaler 0 1, [1, 3])
              \<and> slot StandardScaler m' = 1
              \<and> map_of h' 1 = map_of h 1"
    by blast
  with a r t ne i s show ?thesis
    by blast
qed


section \<open>Copying\<close>

lemma clone_effect:
  assumes fresh: "fresh_allocator (alloc env)"
    and src: "p = NULL \<or> map_of h p \<noteq> None"
  shows "\<exists>h' p'. clone env h p = Inr (h', p')
           \<and> (p' = NULL \<longleftrightarrow> p = NULL)
           \<and> (p' \<noteq> NULL \<longrightarrow> map_of h p' = None)
           \<and> (\<forall>q. map_of h' q = (if q = p' \<and> p' \<noteq> NULL then map_of h p else map_of h q))"
proof (cases "p = NULL")
  case True
  then show ?thesis by (simp add: clone_def)
next
  case False
  with src obtain v where v: "map_of h p = Some v" by blast
  obtain h' p' where n: "new_obj env h v = (h', p')"
    by (cases "new_obj env h v")
  note e = new_obj_effect [OF fresh n]
  have "clone env h p = Inr (h', p')"
    using False by (simp add: clone_def copy_of_def deref_live [OF False v] n)
  then show ?thesis
    using False e v by (intro exI [of _ h'] exI [of _ p']) simp
qed

lemma assign_member_effect:
  assumes fresh: "fresh_allocator (alloc env)"
    and old: "slot k t = NULL \<or> map_of h (slot k t) \<noteq> None"
    and src: "slot k other = NULL
                \<or> map_of h (slot k other) \<noteq> None \<and> slot k other \<noteq> slot k t"
  shows "\<exists>h' p. assign_member env k other (h, t) = Inr (h', set_slot k p t)
           \<and> (p = NULL \<longleftrightarrow> slot k other = NULL)
           \<and> (p \<noteq> NULL \<longrightarrow> map_of h p = None \<or> p = slot k t)
           \<and> (\<forall>q. map_of h' q =
                 (if q = p \<and> p \<noteq> NULL then map_of h (slot k other)
                  else if q = slot k t \<and> q \<noteq> NULL then None
                  else map_of h q))"
proof -
  from delete_obj_effect [OF old] obtain h1 where
    d: "delete_obj h (slot k t) = Inr h1"
    and h1: "\<And>q. map_of h1 q = (if q = slot k t \<and> slot k t \<noteq> NULL then None else map_of h q)"
    by blast
  have s1: "map_of h1 (slot k other) = map_of h (slot k other)"
    using src h1 [of "slot k other"] by (auto split: if_splits)
  have "slot k other = NULL \<or> map_of h1 (slot k other) \<noteq> None"
    using src s1 by auto
  from clone_effect [OF fresh this] obtain h2 p where
    c: "clone env h1 (slot k other) = Inr (h2, p)"
    and p: "p = NULL \<longleftrightarrow> slot k other = NULL" "p \<noteq> NULL \<longrightarrow> map_of h1 p = None"
    and h2: "\<And>q. map_of h2 q = (if q = p \<and> p \<noteq> NULL then map_of h1 (slot k other) else map_of h1 q)"
    by blast
  have r: "assign_member env k other (h, t) = Inr (h2, set_slot k p t)"
    by (simp add: assign_member_def d c)
  have f: "p \<noteq> NULL \<longrightarrow> map_of h p = None \<or> p = slot k t"
    using p(2) h1 [of p] by (auto split: if_splits)
  have m: "\<And>q. map_of h2 q =
                 (if q = p \<and> p \<noteq> NULL then map_of h (slot k other)
                  else if q = slot k t \<and> q \<noteq> NULL then None
                  else map_of h q)"
  proof -
    fix q
    have "map_of h2 q = (if q = p \<and> p \<noteq> NULL then map_of h (slot k other) else map_of h1 q)"
      by (simp only: h2 s1)
    also have "map_of h1 q = (if q = slot k t \<and> q \<noteq> NULL then None else map_of h q)"
      using h1 [of q] by auto
    finally show "map_of h2 q =
                 (if q = p \<and> p \<noteq> NULL then map_of h (slot k other)
                  else if q = slot k t \<and> q \<noteq> NULL then None
                  else map_of h q)" .
  qed
  show ?thesis
    using r p(1) f m by (intro exI [of _ h2] exI [of _ p]) simp
qed

lemma copying_start:
  "well_formed h t \<Longrightarrow> well_formed h other \<Longrightarrow> separate t other \<Longrightarrow> copying h t other {} h t"
  by (simp add: copying_def)

lemma copying_step:
  assumes fresh: "fresh_allocator (alloc env)"
    and inv: "copying h0 t0 other D h t"
    and k: "k \<notin> D"
  shows "\<exists>h' t'. assign_member env k other (h, t) = Inr (h', t')
           \<and> copying h0 t0 other (insert k D) h' t'"
proof -
  from inv have
    W1: "\<And>i j. i \<noteq> j \<Longrightarrow> slot i t \<noteq> NULL \<Longrightarrow> slot i t \<noteq> slot j t"
    and W2: "\<And>i. slot i t \<noteq> NULL \<Longrightarrow> map_of h (slot i t) \<noteq> None"
    and O1: "\<And>i j. i \<noteq> j \<Longrightarrow> slot i other \<noteq> NULL \<Longrightarrow> slot i other \<noteq> slot j other"
    and O2: "\<And>i. slot i other \<noteq> NULL \<Longrightarrow> map_of h (slot i other) \<noteq> None"
    and S: "\<And>i j. slot i t \<noteq> NULL \<Longrightarrow> slot i t \<noteq> slot j other"
    and C: "\<And>i. slot i other \<noteq> NULL \<Longrightarrow> map_of h (slot i other) = map_of h0 (slot i other)"
    and U: "\<And>i. i \<notin> D \<Longrightarrow> slot i t = slot i t0"
    and K: "\<And>i. i \<in> D \<Longrightarrow> (slot i t = NULL \<longleftrightarrow> slot i other = NULL)
            \<and> (slot i t \<noteq> NULL \<longrightarrow> map_of h (slot i t) = map_of h0 (slot i other))"
    and F: "\<And>i. i \<in> D \<Longrightarrow> slot i t \<noteq> NULL \<Longrightarrow>
            map_of h0 (slot i t) = None \<or> slot i t \<in> set (owned t0)"
    and R: "\<And>q. map_of h0 q \<noteq> None \<Longrightarrow> q \<notin> set (owned t0) \<Longrightarrow> map_of h q = map_of h0 q"
    and V: "scalerType t = scalerType t0" "minValue t = minValue t0"
           "maxValue t = maxValue t0" "epsilon t = epsilon t0"
    unfolding copying_def well_formed_iff separate_iff by blast+
  have old: "slot k t = NULL \<or> map_of h (slot k t) \<noteq> None"
    using W2 by blast
  have src: "slot k other = NULL \<or> map_of h (slot k other) \<noteq> None \<and> slot k other \<noteq> slot k t"
    using O2 S by metis
  from assign_member_effect [OF fresh old src] obtain h' p where
    r: "assign_member env k other (h, t) = Inr (h', set_slot k p t)"
    and P1: "p = NULL \<longleftrightarrow> slot k other = NULL"
    and P2: "p \<noteq> NULL \<Longrightarrow> map_of h p = None \<or> p = slot k t"
    and E: "\<And>q. map_of h' q =
                 (if q = p \<and> p \<noteq> NULL then map_of h (slot k other)
                  else if q = slot k t \<and> q \<noteq> NULL then None
                  else map_of h q)"
    by blast
  let ?t = "set_slot k p t"
  have sl: "\<And>j. slot j ?t = (if j = k then p else slot j t)"
    by (simp add: slot_set_slot)
  have A: "\<And>j. p \<noteq> NULL \<Longrightarrow> j \<noteq> k \<Longrightarrow> slot j t \<noteq> p"
    using P2 W1 W2 by metis
  have B: "\<And>j. p \<noteq> NULL \<Longrightarrow> slot j other \<noteq> p"
    using P2 O2 S by metis
  have C': "\<And>j. slot j other \<noteq> NULL \<Longrightarrow> map_of h' (slot j other) = map_of h (slot j other)"
    using E B S by metis
  have D': "\<And>j. j \<noteq> k \<Longrightarrow> slot j t \<noteq> NULL \<Longrightarrow> map_of h' (slot j t) = map_of h (slot j t)"
    using E A W1 by metis
  have Ep: "p \<noteq> NULL \<Longrightarrow> map_of h' p = map_of h (slot k other)"
    using E by simp
  have W1': "\<And>i j. i \<noteq> j \<Longrightarrow> slot i ?t \<noteq> NULL \<Longrightarrow> slot i ?t \<noteq> slot j ?t"
    unfolding sl using W1 A by metis
  have W2': "\<And>i. slot i ?t \<noteq> NULL \<Longrightarrow> map_of h' (slot i ?t) \<noteq> None"
    unfolding sl using W2 D' Ep P1 O2 by metis
  have O2': "\<And>i. slot i other \<noteq> NULL \<Longrightarrow> map_of h' (slot i other) \<noteq> None"
    using C' O2 by metis
  have S': "\<And>i j. slot i ?t \<noteq> NULL \<Longrightarrow> slot i ?t \<noteq> slot j other"
    unfolding sl using S B by metis
  have C'': "\<And>i. slot i other \<noteq> NULL \<Longrightarrow> map_of h' (slot i other) = map_of h0 (slot i other)"
    using C' C by metis
  have U': "\<And>i. i \<notin> insert k D \<Longrightarrow> slot i ?t = slot i t0"
    unfolding sl using U by auto
  have K': "\<And>i. i \<in> insert k D \<Longrightarrow> (slot i ?t = NULL \<longleftrightarrow> slot i other = NULL)
            \<and> (slot i ?t \<noteq> NULL \<longrightarrow> map_of h' (slot i ?t) = map_of h0 (slot i other))"
  proof -
    fix i assume i: "i \<in> insert k D"
    show "(slot i ?t = NULL \<longleftrightarrow> slot i other = NULL)
            \<and> (slot i ?t \<noteq> NULL \<longrightarrow> map_of h' (slot i ?t) = map_of h0 (slot i other))"
    proof (cases "i = k")
      case True
      then show ?thesis
        unfolding sl using P1 Ep C by auto
    next
      case False
      with i have "i \<in> D" by simp
      from K [OF this] D' [OF False] False show ?thesis
        unfolding sl by auto
    qed
  qed
  have oldown: "slot k t \<noteq> NULL \<Longrightarrow> slot k t \<in> set (owned t0)"
    using U [OF k] by (auto simp: in_owned)
  have F': "\<And>i. i \<in> insert k D \<Longrightarrow> slot i ?t \<noteq> NULL \<Longrightarrow>
            map_of h0 (slot i ?t) = None \<or> slot i ?t \<in> set (owned t0)"
  proof -
    fix i assume i: "i \<in> insert k D" and n: "slot i ?t \<noteq> NULL"
    show "map_of h0 (slot i ?t) = None \<or> slot i ?t \<in> set (owned t0)"
    proof (cases "i = k")
      case True
      with n have pn: "p \<noteq> NULL" by (simp add: sl)
      from P2 [OF pn] show ?thesis
      proof
        assume "map_of h p = None"
        with R [of p] have "map_of h0 p = None \<or> p \<in> set (owned t0)"
          by metis
        with True show ?thesis by (simp add: sl)
      next
        assume "p = slot k t"
        with oldown pn have "p \<in> set (owned t0)" by simp
        with True show ?thesis by (simp add: slot_set_slot)
      qed
    next
      case False
      with i n F [of i] show ?thesis by (simp add: sl)
    qed
  qed
  have R': "\<And>q. map_of h0 q \<noteq> None \<Longrightarrow> q \<notin> set (owned t0) \<Longrightarrow> map_of h' q = map_of h0 q"
  proof -
    fix q assume q: "map_of h0 q \<noteq> None" "q \<notin> set (owned t0)"
    from R [OF q] have hq: "map_of h q = map_of h0 q" .
    have "\<not> (q = p \<and> p \<noteq> NULL)"
      using P2 hq q oldown by metis
    moreover have "\<not> (q = slot k t \<and> q \<noteq> NULL)"
      using q(2) oldown by metis
    ultimately show "map_of h' q = map_of h0 q"
      using E [of q] hq by auto
  qed
  have "copying h0 t0 other (insert k D) h' ?t"
    unfolding copying_def well_formed_iff separate_iff
    using W1' W2' O1 O2' S' C'' U' K' F' R' V
    by (simp add: set_slot_scalars)
  with r show ?thesis by blast
qed


lemma slot_scalar_update [simp]:
  "slot k (m\<lparr>scalerType := s\<rparr>) = slot k m"
  "slot k (m\<lparr>minValue := lo\<rparr>) = slot k m"
  "slot k (m\<lparr>maxValue := hi\<rparr>) = slot k m"
  "slot k (m\<lparr>epsilon := e\<rparr>) = slot k m"
  by (cases k; simp)+

lemma slot_set_ScalerType [simp]: "slot k (set_ScalerType s m) = slot k m"
  by (simp add: set_ScalerType_def)

lemma deep_copy_iff:
  "deep_copy h a h' b \<longleftrightarrow>
     scalerType b = scalerType a \<and> minValue b = minValue a \<and> maxValue b = maxValue a
     \<and> epsilon b = epsilon a
     \<and> (\<forall>k. (slot k a = NULL \<longrightarrow> slot k b = NULL)
            \<and> (slot k a \<noteq> NULL \<longrightarrow> slot k b \<noteq> NULL
                  \<and> map_of h' (slot k b) = map_of h (slot k a)
                  \<and> map_of h' (slot k a) = map_of h (slot k a)))
     \<and> well_formed h' b \<and> separate b a"
  unfolding deep_copy_def list_all_iff all_classes_UNIV by auto

lemma copying_done:
  assumes inv: "copying h0 t0 other UNIV h t"
    and tag: "scalerType t0 = scalerType other"
    and t': "\<And>k. slot k t' = slot k t" "scalerType t' = scalerType t"
      "minValue t' = minValue other" "maxValue t' = maxValue other" "epsilon t' = epsilon other"
  shows "deep_copy h0 other h t'"
    and "\<And>k. slot k t' \<noteq> NULL \<Longrightarrow> map_of h0 (slot k t') = None \<or> slot k t' \<in> set (owned t0)"
    and "\<And>q. map_of h0 q \<noteq> None \<Longrightarrow> q \<notin> set (owned t0) \<Longrightarrow> map_of h q = map_of h0 q"
proof -
  from inv have
    W: "well_formed h t" and S: "separate t other"
    and C: "\<And>i. slot i other \<noteq> NULL \<Longrightarrow> map_of h (slot i other) = map_of h0 (slot i other)"
    and K: "\<And>i. (slot i t = NULL \<longleftrightarrow> slot i other = NULL)
            \<and> (slot i t \<noteq> NULL \<longrightarrow> map_of h (slot i t) = map_of h0 (slot i other))"
    and F: "\<And>i. slot i t \<noteq> NULL \<Longrightarrow>
            map_of h0 (slot i t) = None \<or> slot i t \<in> set (owned t0)"
    and R: "\<And>q. map_of h0 q \<noteq> None \<Longrightarrow> q \<notin> set (owned t0) \<Longrightarrow> map_of h q = map_of h0 q"
    and V: "scalerType t = scalerType t0"
    unfolding copying_def by blast+
  have "well_formed h t'" "separate t' other"
    using W S unfolding well_formed_iff separate_iff t'(1) by blast+
  then show "deep_copy h0 other h t'"
    unfolding deep_copy_iff t' using K C V tag by metis
  show "\<And>k. slot k t' \<noteq> NULL \<Longrightarrow> map_of h0 (slot k t') = None \<or> slot k t' \<in> set (owned t0)"
    unfolding t'(1) by (rule F)
  show "\<And>q. map_of h0 q \<noteq> None \<Longrightarrow> q \<notin> set (owned t0) \<Longrightarrow> map_of h q = map_of h0 q"
    by (rule R)
qed

lemma well_formed_retag: "well_formed h (m\<lparr>scalerType := s\<rparr>) = well_formed h m"
  by (simp add: well_formed_iff)

lemma separate_retag: "separate (m\<lparr>scalerType := s\<rparr>) b = separate m b"
  by (simp add: separate_iff)

lemma owned_retag: "owned (m\<lparr>scalerType := s\<rparr>) = owned m"
  by (simp add: owned_def)

lemma operator_assign_effect:
  assumes fresh: "fresh_allocator (alloc env)"
    and wt: "well_formed h this" and wo: "well_formed h other" and sep: "separate this other"
    and ne: "this_at \<noteq> other_at"
  shows "\<exists>h' t'. operator_assign env h (this_at, this) (other_at, other) = Inr (h', t')
           \<and> deep_copy h other h' t'
           \<and> (\<forall>k. slot k t' \<noteq> NULL \<longrightarrow> map_of h (slot k t') = None \<or> slot k t' \<in> set (owned this))
           \<and> (\<forall>q. map_of h q \<noteq> None \<longrightarrow> q \<notin> set (owned this) \<longrightarrow> map_of h' q = map_of h q)"
proof -
  let ?t0 = "this\<lparr>scalerType := scalerType other\<rparr>"
  have c0: "copying h ?t0 other {} h ?t0"
    by (rule copying_start) (simp_all add: well_formed_retag separate_retag wt wo sep)
  from copying_step [OF fresh c0, of MinMaxScaler] obtain h1 t1 where
    a1: "assign_member env MinMaxScaler other (h, ?t0) = Inr (h1, t1)"
    and c1: "copying h ?t0 other {MinMaxScaler} h1 t1" by auto
  from copying_step [OF fresh c1, of MaxAbsScaler] obtain h2 t2 where
    a2: "assign_member env MaxAbsScaler other (h1, t1) = Inr (h2, t2)"
    and c2: "copying h ?t0 other {MaxAbsScaler, MinMaxScaler} h2 t2" by auto
  from copying_step [OF fresh c2, of StandardScaler] obtain h3 t3 where
    a3: "assign_member env StandardScaler other (h2, t2) = Inr (h3, t3)"
    and c3: "copying h ?t0 other {StandardScaler, MaxAbsScaler, MinMaxScaler} h3 t3" by auto
  from copying_step [OF fresh c3, of MeanNormalization] obtain h4 t4 where
    a4: "assign_member env MeanNormalization other (h3, t3) = Inr (h4, t4)"
    and c4: "copying h ?t0 other
               {MeanNormalization, StandardScaler, MaxAbsScaler, MinMaxScaler} h4 t4" by auto
  from copying_step [OF fresh c4, of PcaWhitening] obtain h5 t5 where
    a5: "assign_member env PcaWhitening other (h4, t4) = Inr (h5, t5)"
    and c5: "copying h ?t0 other
               {PcaWhitening, MeanNormalization, StandardScaler, MaxAbsScaler, MinMaxScaler} h5 t5"
    by auto
  from copying_step [OF fresh c5, of ZcaWhitening] obtain h6 t6 where
    a6: "assign_member env ZcaWhitening other (h5, t5) = Inr (h6, t6)"
    and c6: "copying h ?t0 other
               {ZcaWhitening, PcaWhitening, MeanNormalization, StandardScaler, MaxAbsScaler,
                MinMaxScaler} h6 t6"
    by auto
  have "{ZcaWhitening, PcaWhitening, MeanNormalization, StandardScaler, MaxAbsScaler,
                MinMaxScaler} = (UNIV :: scaler_class set)"
    using all_classes_UNIV by (auto simp: all_classes_def)
  with c6 have c: "copying h ?t0 other UNIV h6 t6" by simp
  let ?t' = "t6\<lparr>minValue := minValue other, maxValue := maxValue other, epsilon := epsilon other\<rparr>"
  have r: "operator_assign env h (this_at, this) (other_at, other) = Inr (h6, ?t')"
    using ne by (simp add: operator_assign_def a1 a2 a3 a4 a5 a6)
  note d = copying_done [OF c, of ?t']
  have "deep_copy h other h6 ?t'"
    by (rule d(1)) simp_all
  moreover have "\<forall>k. slot k ?t' \<noteq> NULL \<longrightarrow>
      map_of h (slot k ?t') = None \<or> slot k ?t' \<in> set (owned this)"
    using d(2) by (simp add: owned_retag)
  moreover have "\<forall>q. map_of h q \<noteq> None \<longrightarrow> q \<notin> set (owned this) \<longrightarrow> map_of h6 q = map_of h q"
    using d(3) by (simp add: owned_retag)
  ultimately show ?thesis using r by blast
qed


lemma assign_member_null:
  "slot k t = NULL \<Longrightarrow>
     assign_member env k other (h, t)
       = and_then (clone env h (slot k other)) (\<lambda>(h2, p). Inr (h2, set_slot k p t))"
  by (simp add: assign_member_def delete_obj_def)

lemma ScalingModel_copy_effect:
  assumes fresh: "fresh_allocator (alloc env)" and wo: "well_formed h other"
  shows "\<exists>h' t'. ScalingModel_copy env h other = Inr (h', t')
           \<and> deep_copy h other h' t'
           \<and> (\<forall>k. slot k t' \<noteq> NULL \<longrightarrow> map_of h (slot k t') = None)
           \<and> (\<forall>q. map_of h q \<noteq> None \<longrightarrow> map_of h' q = map_of h q)"
proof -
  let ?t0 = "(ScalingModel_init (minValue other) (maxValue other) (epsilon other))
               \<lparr>scalerType := scalerType other\<rparr>"
  have o0: "owned ?t0 = []"
    by (simp add: owned_def all_classes_def ScalingModel_init_def)
  have n0: "\<And>k. slot k ?t0 = NULL"
    subgoal for k by (cases k) (simp_all add: ScalingModel_init_def)
    done
  have "well_formed h ?t0" "separate ?t0 other"
    by (simp_all add: well_formed_def separate_def o0)
  then have c0: "copying h ?t0 other {} h ?t0"
    using wo by (intro copying_start)
  from copying_step [OF fresh c0, of MinMaxScaler] obtain h1 t1 where
    a1: "assign_member env MinMaxScaler other (h, ?t0) = Inr (h1, t1)"
    and c1: "copying h ?t0 other {MinMaxScaler} h1 t1" by auto
  from copying_step [OF fresh c1, of MaxAbsScaler] obtain h2 t2 where
    a2: "assign_member env MaxAbsScaler other (h1, t1) = Inr (h2, t2)"
    and c2: "copying h ?t0 other {MaxAbsScaler, MinMaxScaler} h2 t2" by auto
  from copying_step [OF fresh c2, of PcaWhitening] obtain h3 t3 where
    a3: "assign_member env PcaWhitening other (h2, t2) = Inr (h3, t3)"
    and c3: "copying h ?t0 other {PcaWhitening, MaxAbsScaler, MinMaxScaler} h3 t3" by auto
  from copying_step [OF fresh c3, of ZcaWhitening] obtain h4 t4 where
    a4: "assign_member env ZcaWhitening other (h3, t3) = Inr (h4, t4)"
    and c4: "copying h ?t0 other
               {ZcaWhitening, PcaWhitening, MaxAbsScaler, MinMaxScaler} h4 t4" by auto
  from copying_step [OF fresh c4, of MeanNormalization] obtain h5 t5 where
    a5: "assign_member env MeanNormalization other (h4, t4) = Inr (h5, t5)"
    and c5: "copying h ?t0 other
               {MeanNormalization, ZcaWhitening, PcaWhitening, MaxAbsScaler, MinMaxScaler} h5 t5"
    by auto
  from copying_step [OF fresh c5, of StandardScaler] obtain h6 t6 where
    a6: "assign_member env StandardScaler other (h5, t5) = Inr (h6, t6)"
    and c6: "copying h ?t0 other
               {StandardScaler, MeanNormalization, ZcaWhitening, PcaWhitening, MaxAbsScaler,
                MinMaxScaler} h6 t6"
    by auto
  have u: "\<And>D h' t' k. copying h ?t0 other D h' t' \<Longrightarrow> k \<notin> D \<Longrightarrow> slot k t' = NULL"
    unfolding copying_def using n0 by metis
  have s: "\<And>D h' t'. copying h ?t0 other D h' t' \<Longrightarrow>
      scalerType t' = scalerType other \<and> minValue t' = minValue other
      \<and> maxValue t' = maxValue other \<and> epsilon t' = epsilon other"
    unfolding copying_def by (simp add: ScalingModel_init_def)
  have b1: "clone env h (minmaxscale other) = Inr (h1, minmaxscale t1)"
    and e1: "t1 = set_slot MinMaxScaler (minmaxscale t1) ?t0"
    using a1 by (auto simp: assign_member_null [OF n0] and_then_def split: sum.splits)
  have b2: "clone env h1 (maxabsscale other) = Inr (h2, maxabsscale t2)"
    and e2: "t2 = set_slot MaxAbsScaler (maxabsscale t2) t1"
    using a2 u [OF c1, of MaxAbsScaler]
    by (auto simp: assign_member_null and_then_def split: sum.splits)
  have b3: "clone env h2 (pcascale other) = Inr (h3, pcascale t3)"
    and e3: "t3 = set_slot PcaWhitening (pcascale t3) t2"
    using a3 u [OF c2, of PcaWhitening]
    by (auto simp: assign_member_null and_then_def split: sum.splits)
  have b4: "clone env h3 (zcascale other) = Inr (h4, zcascale t4)"
    and e4: "t4 = set_slot ZcaWhitening (zcascale t4) t3"
    using a4 u [OF c3, of ZcaWhitening]
    by (auto simp: assign_member_null and_then_def split: sum.splits)
  have b5: "clone env h4 (meanscale other) = Inr (h5, meanscale t5)"
    and e5: "t5 = set_slot MeanNormalization (meanscale t5) t4"
    using a5 u [OF c4, of MeanNormalization]
    by (auto simp: assign_member_null and_then_def split: sum.splits)
  have b6: "clone env h5 (standardscale other) = Inr (h6, standardscale t6)"
    and e6: "t6 = set_slot StandardScaler (standardscale t6) t5"
    using a6 u [OF c5, of StandardScaler]
    by (auto simp: assign_member_null and_then_def split: sum.splits)
  have q6: "\<And>j. j \<noteq> StandardScaler \<Longrightarrow> slot j t6 = slot j t5"
    by (metis e6 slot_set_slot)
  have q5: "\<And>j. j \<noteq> MeanNormalization \<Longrightarrow> slot j t5 = slot j t4"
    by (metis e5 slot_set_slot)
  have q4: "\<And>j. j \<noteq> ZcaWhitening \<Longrightarrow> slot j t4 = slot j t3"
    by (metis e4 slot_set_slot)
  have q3: "\<And>j. j \<noteq> PcaWhitening \<Longrightarrow> slot j t3 = slot j t2"
    by (metis e3 slot_set_slot)
  have q2: "\<And>j. j \<noteq> MaxAbsScaler \<Longrightarrow> slot j t2 = slot j t1"
    by (metis e2 slot_set_slot)
  have p: "minmaxscale t6 = minmaxscale t1" "maxabsscale t6 = maxabsscale t2"
    "pcascale t6 = pcascale t3" "zcascale t6 = zcascale t4" "meanscale t6 = meanscale t5"
    using q6 [of MinMaxScaler] q5 [of MinMaxScaler] q4 [of MinMaxScaler] q3 [of MinMaxScaler]
      q2 [of MinMaxScaler] q6 [of MaxAbsScaler] q5 [of MaxAbsScaler] q4 [of MaxAbsScaler]
      q3 [of MaxAbsScaler] q6 [of PcaWhitening] q5 [of PcaWhitening] q4 [of PcaWhitening]
      q6 [of ZcaWhitening] q5 [of ZcaWhitening] q6 [of MeanNormalization]
    by simp_all
  have t6: "t6 = \<lparr>scalerType = scalerType other,
          minmaxscale = minmaxscale t1, maxabsscale = maxabsscale t2, meanscale = meanscale t5,
          standardscale = standardscale t6, pcascale = pcascale t3, zcascale = zcascale t4,
          minValue = minValue other, maxValue = maxValue other,
          epsilon = epsilon other\<rparr>"
    using s [OF c6] p by (cases t6) simp
  have "ScalingModel_copy env h other = Inr (h6, \<lparr>scalerType = scalerType other,
          minmaxscale = minmaxscale t1, maxabsscale = maxabsscale t2, meanscale = meanscale t5,
          standardscale = standardscale t6, pcascale = pcascale t3, zcascale = zcascale t4,
          minValue = minValue other, maxValue = maxValue other,
          epsilon = epsilon other\<rparr>)"
    by (simp add: ScalingModel_copy_def b1 b2 b3 b4 b5 b6)
  with t6 have r: "ScalingModel_copy env h other = Inr (h6, t6)"
    by metis
  have "{StandardScaler, MeanNormalization, ZcaWhitening, PcaWhitening, MaxAbsScaler,
                MinMaxScaler} = (UNIV :: scaler_class set)"
    using all_classes_UNIV by (auto simp: all_classes_def)
  with c6 have c: "copying h ?t0 other UNIV h6 t6" by simp
  have tg: "scalerType ?t0 = scalerType other"
    by simp
  from s [OF c6] have v: "minValue t6 = minValue other" "maxValue t6 = maxValue other"
    "epsilon t6 = epsilon other"
    by simp_all
  note d = copying_done [OF c tg refl refl v]
  have "deep_copy h other h6 t6"
    by (rule d(1))
  moreover have "\<forall>k. slot k t6 \<noteq> NULL \<longrightarrow> map_of h (slot k t6) = None"
    using d(2) by (simp add: o0)
  moreover have "\<forall>q. map_of h q \<noteq> None \<longrightarrow> map_of h6 q = map_of h q"
    using d(3) by (simp add: o0)
  ultimately show ?thesis using r by blast
qed


lemma Fit_frame:
  assumes fresh: "fresh_allocator (alloc env)" and wf: "well_formed h m"
  shows "\<exists>h' m' r. Fit env h m x = Inr ((h', m'), r)
           \<and> (\<forall>q. map_of h q \<noteq> None \<longrightarrow> q \<notin> set (owned m) \<longrightarrow> map_of h' q = map_of h q)"
proof (cases "\<exists>k. scalerType m = tag k")
  case False
  then have "Fit env h m x = Inr ((h, m), None)"
    by (simp add: Fit_skip)
  then show ?thesis by simp
next
  case True
  then obtain k where k: "scalerType m = tag k" ..
  have old: "slot (class_of (configured m k)) m = NULL
      \<or> map_of h (slot (class_of (configured m k)) m) \<noteq> None"
    unfolding configured_class using wf unfolding well_formed_iff by blast
  from refit_effect [OF fresh old, of x] obtain h' p r where
    r: "refit env h m (configured m k) x = Inr ((h', set_slot k p m), r)"
    and p: "p \<noteq> NULL" "map_of h p = None \<or> p = slot k m"
    and c: "\<And>q. map_of h' q =
                (if q = p then Some (fst (fit env k (construct env (configured m k)) x))
                 else if q = slot k m \<and> q \<noteq> NULL then None
                 else map_of h q)"
    unfolding configured_class by blast
  have "map_of h' q = map_of h q" if q: "map_of h q \<noteq> None" "q \<notin> set (owned m)" for q
  proof -
    have "q \<noteq> p"
      using p q unfolding in_owned by metis
    moreover have "\<not> (q = slot k m \<and> q \<noteq> NULL)"
      using q(2) unfolding in_owned by metis
    ultimately show ?thesis using c [of q] by auto
  qed
  with r show ?thesis
    by (simp add: Fit_dispatch [OF k])
qed

lemma through_cong:
  "(p \<noteq> NULL \<Longrightarrow> map_of h' p = map_of h p) \<Longrightarrow> through h' p f = through h p f"
  by (cases "p = NULL") (simp_all add: through_def deref_def)

lemma Transform_cong:
  assumes "\<And>k. slot k m \<noteq> NULL \<Longrightarrow> map_of h' (slot k m) = map_of h (slot k m)"
  shows "Transform env h' m input out = Transform env h m input out"
    and "InverseTransform env h' m input out = InverseTransform env h m input out"
proof -
  have t: "through h' (slot k m) f = through h (slot k m) f" for k f
    by (rule through_cong) (rule assms)
  note u = t [of StandardScaler, simplified] t [of MinMaxScaler, simplified]
    t [of MeanNormalization, simplified] t [of MaxAbsScaler, simplified]
    t [of PcaWhitening, simplified] t [of ZcaWhitening, simplified]
  show "Transform env h' m input out = Transform env h m input out"
    by (simp only: Transform_def u cong: if_cong)
  show "InverseTransform env h' m input out = InverseTransform env h m input out"
    by (simp only: InverseTransform_def u cong: if_cong)
qed

lemma refit_keeps_other:
  assumes fresh: "fresh_allocator (alloc env)"
    and wm: "well_formed h m" and wn: "well_formed h n" and sep: "separate n m"
  shows "\<exists>h' m' r. Fit env h (set_ScalerType t m) x = Inr ((h', m'), r)
           \<and> (\<forall>input out.
                 Transform env h' n input out = Transform env h n input out
                 \<and> InverseTransform env h' n input out = InverseTransform env h n input out)"
proof -
  have "well_formed h (set_ScalerType t m)"
    using wm by (simp add: well_formed_iff)
  from Fit_frame [OF fresh this, of x] obtain h' m' r where
    f: "Fit env h (set_ScalerType t m) x = Inr ((h', m'), r)"
    and fr: "\<And>q. map_of h q \<noteq> None \<Longrightarrow> q \<notin> set (owned m) \<Longrightarrow> map_of h' q = map_of h q"
    by auto
  have e: "\<And>k. slot k n \<noteq> NULL \<Longrightarrow> map_of h' (slot k n) = map_of h (slot k n)"
  proof (rule fr)
    fix k assume k: "slot k n \<noteq> NULL"
    show "map_of h (slot k n) \<noteq> None"
      using wn k unfolding well_formed_iff by blast
    show "slot k n \<notin> set (owned m)"
      using sep k unfolding separate_iff in_owned by metis
  qed
  have "Transform env h' n input out = Transform env h n input out
      \<and> InverseTransform env h' n input out = InverseTransform env h n input out" for input out
  proof
    show "Transform env h' n input out = Transform env h n input out"
      by (rule Transform_cong) (rule e)
    show "InverseTransform env h' n input out = InverseTransform env h n input out"
      by (rule Transform_cong) (rule e)
  qed
  with f show ?thesis by blast
qed

lemma separate_sym: "separate a b \<Longrightarrow> separate b a"
  unfolding separate_iff by metis

lemma deep_copy_well_formed:
  assumes "deep_copy h a h' b" and "well_formed h a"
  shows "well_formed h' a" and "well_formed h' b" and "separate b a"
  using assms unfolding deep_copy_iff well_formed_iff by metis+

section \<open>Copies\<close>

text \<open>
  C4. Let \<open>A\<close> be well formed. The copy constructor returns a model \<open>B\<close> that is a deep
  copy of \<open>A\<close>: equal scalar members, and for each class a null member where \<open>A\<close>'s is
  null and otherwise a member pointing to an object at an address that was free, in the
  state of \<open>A\<close>'s object. Copy assignment to a different, well-formed model that shares no
  instance with \<open>A\<close> makes that model a deep copy of \<open>A\<close> too. Whenever \<open>B\<close> is a deep
  copy of \<open>A\<close>, setting the tag of \<open>B\<close> and fitting it on any data returns and leaves
  every result of \<open>Transform\<close> and \<open>InverseTransform\<close> on \<open>A\<close> as it was, and the same
  with \<open>A\<close> and \<open>B\<close> exchanged.
\<close>

theorem copies_are_deep_and_independent:
  assumes "fresh_allocator (alloc env)" and "well_formed h A"
  shows "(\<exists>h' B. ScalingModel_copy env h A = Inr (h', B) \<and> deep_copy h A h' B
            \<and> list_all (\<lambda>p. map_of h p = None) (owned B))
       \<and> (b \<noteq> a \<and> well_formed h B0 \<and> separate B0 A \<longrightarrow>
            (\<exists>h' B. operator_assign env h (b, B0) (a, A) = Inr (h', B) \<and> deep_copy h A h' B))
       \<and> (\<forall>h' B. deep_copy h A h' B \<longrightarrow>
            (\<forall>t x. \<exists>h2 B2 r. Fit env h' (set_ScalerType t B) x = Inr ((h2, B2), r)
               \<and> (\<forall>input out.
                     Transform env h2 A input out = Transform env h' A input out
                     \<and> InverseTransform env h2 A input out = InverseTransform env h' A input out))
            \<and> (\<forall>t x. \<exists>h2 A2 r. Fit env h' (set_ScalerType t A) x = Inr ((h2, A2), r)
               \<and> (\<forall>input out.
                     Transform env h2 B input out = Transform env h' B input out
                     \<and> InverseTransform env h2 B input out = InverseTransform env h' B input out)))"
proof (intro conjI impI allI)
  from ScalingModel_copy_effect [OF assms] obtain h' B where
    r: "ScalingModel_copy env h A = Inr (h', B)" and d: "deep_copy h A h' B"
    and f: "\<forall>k. slot k B \<noteq> NULL \<longrightarrow> map_of h (slot k B) = None"
    by blast
  from f have l: "list_all (\<lambda>p. map_of h p = None) (owned B)"
    unfolding list_all_iff Ball_def in_owned by auto
  show "\<exists>h' B. ScalingModel_copy env h A = Inr (h', B) \<and> deep_copy h A h' B
            \<and> list_all (\<lambda>p. map_of h p = None) (owned B)"
    by (rule exI [of _ h'], rule exI [of _ B]) (simp add: r d l)
next
  assume p: "b \<noteq> a \<and> well_formed h B0 \<and> separate B0 A"
  from p have p1: "b \<noteq> a" by (rule conjunct1)
  from p have p2: "well_formed h B0" by (rule conjunct1 [OF conjunct2])
  from p have p3: "separate B0 A" by (rule conjunct2 [OF conjunct2])
  from operator_assign_effect [OF assms(1) p2 assms(2) p3 p1] obtain h' B where
    r: "operator_assign env h (b, B0) (a, A) = Inr (h', B)" and d: "deep_copy h A h' B"
    by blast
  show "\<exists>h' B. operator_assign env h (b, B0) (a, A) = Inr (h', B) \<and> deep_copy h A h' B"
    by (rule exI [of _ h'], rule exI [of _ B]) (simp add: r d)
next
  fix h' B t x
  assume d: "deep_copy h A h' B"
  note w = deep_copy_well_formed [OF d assms(2)]
  show "\<exists>h2 B2 r. Fit env h' (set_ScalerType t B) x = Inr ((h2, B2), r)
               \<and> (\<forall>input out.
                     Transform env h2 A input out = Transform env h' A input out
                     \<and> InverseTransform env h2 A input out = InverseTransform env h' A input out)"
    by (rule refit_keeps_other [OF assms(1) w(2) w(1) separate_sym [OF w(3)]])
next
  fix h' B t x
  assume d: "deep_copy h A h' B"
  note w = deep_copy_well_formed [OF d assms(2)]
  show "\<exists>h2 A2 r. Fit env h' (set_ScalerType t A) x = Inr ((h2, A2), r)
               \<and> (\<forall>input out.
                     Transform env h2 B input out = Transform env h' B input out
                     \<and> InverseTransform env h2 B input out = InverseTransform env h' B input out)"
    by (rule refit_keeps_other [OF assms(1) w(1) w(2) w(3)])
qed

theorem copies_are_deep_and_independent_witness:
  "fresh_allocator (alloc toy)
   \<and> well_formed [(1, (New_StandardScaler, [2, 4, 6::int]))]
       (ScalingModel_init 0 1 0.00005\<lparr>scalerType := STANDARD_SCALER, standardscale := 1\<rparr>)
   \<and> (20::nat) \<noteq> 10
   \<and> well_formed [(1, (New_StandardScaler, [2, 4, 6::int]))] (ScalingModel_init 3 4 0.5)
   \<and> separate (ScalingModel_init 3 4 0.5)
       (ScalingModel_init 0 1 0.00005\<lparr>scalerType := STANDARD_SCALER, standardscale := 1\<rparr>)
   \<and> (\<exists>h' B. ScalingModel_copy toy [(1, (New_StandardScaler, [2, 4, 6]))]
                (ScalingModel_init 0 1 0.00005\<lparr>scalerType := STANDARD_SCALER, standardscale := 1\<rparr>)
              = Inr (h', B)
            \<and> deep_copy [(1, (New_StandardScaler, [2, 4, 6]))]
                (ScalingModel_init 0 1 0.00005\<lparr>scalerType := STANDARD_SCALER, standardscale := 1\<rparr>)
                h' B
            \<and> (\<exists>h2 B2 r. Fit toy h' (set_ScalerType STANDARD_SCALER B) [1, 3] = Inr ((h2, B2), r)
                  \<and> Transform toy h2
                      (ScalingModel_init 0 1 0.00005\<lparr>scalerType := STANDARD_SCALER, standardscale := 1\<rparr>)
                      [2, 4, 6] []
                    = Transform toy h'
                      (ScalingModel_init 0 1 0.00005\<lparr>scalerType := STANDARD_SCALER, standardscale := 1\<rparr>)
                      [2, 4, 6] []))
   \<and> (\<exists>h' B. operator_assign toy [(1, (New_StandardScaler, [2, 4, 6]))]
                (20, ScalingModel_init 3 4 0.5)
                (10, ScalingModel_init 0 1 0.00005\<lparr>scalerType := STANDARD_SCALER, standardscale := 1\<rparr>)
              = Inr (h', B)
            \<and> deep_copy [(1, (New_StandardScaler, [2, 4, 6]))]
                (ScalingModel_init 0 1 0.00005\<lparr>scalerType := STANDARD_SCALER, standardscale := 1\<rparr>)
                h' B)"
proof -
  let ?h = "[(1::nat, (New_StandardScaler, [2, 4, 6::int]))]"
  let ?A = "ScalingModel_init 0 1 0.00005\<lparr>scalerType := STANDARD_SCALER, standardscale := 1\<rparr>"
  let ?B0 = "ScalingModel_init 3 4 0.5"
  have a: "fresh_allocator (alloc toy)"
    by (simp add: toy_def bump_fresh)
  have w: "well_formed ?h ?A"
    by (simp add: well_formed_def owned_def all_classes_def ScalingModel_init_def NULL_def)
  have n: "(20::nat) \<noteq> 10"
    by simp
  have w0: "well_formed ?h ?B0"
    by (simp add: well_formed_def owned_def all_classes_def ScalingModel_init_def NULL_def)
  have s: "separate ?B0 ?A"
    by (simp add: separate_def owned_def all_classes_def ScalingModel_init_def NULL_def)
  note t = copies_are_deep_and_independent [OF a w, of 20 10 ?B0]
  from t obtain h' B where
    c: "ScalingModel_copy toy ?h ?A = Inr (h', B)" "deep_copy ?h ?A h' B"
    by blast
  from t c(2) obtain h2 B2 r where
    "Fit toy h' (set_ScalerType STANDARD_SCALER B) [1, 3] = Inr ((h2, B2), r)"
    "Transform toy h2 ?A [2, 4, 6] [] = Transform toy h' ?A [2, 4, 6] []"
    by meson
  with c have one: "\<exists>h' B. ScalingModel_copy toy ?h ?A = Inr (h', B) \<and> deep_copy ?h ?A h' B
            \<and> (\<exists>h2 B2 r. Fit toy h' (set_ScalerType STANDARD_SCALER B) [1, 3] = Inr ((h2, B2), r)
                  \<and> Transform toy h2 ?A [2, 4, 6] [] = Transform toy h' ?A [2, 4, 6] [])"
    by blast
  from t n w0 s have two: "\<exists>h' B. operator_assign toy ?h (20, ?B0) (10, ?A) = Inr (h', B)
      \<and> deep_copy ?h ?A h' B"
    by blast
  from a w n w0 s one two show ?thesis
    by blast
qed

end
